theory Spec2Isabelle
  imports Main
begin

section \<open>Solidity 0.8 arithmetic and reverts\<close>

text \<open>
  The contracts are compiled with Solidity 0.8.20: \<open>+\<close>, \<open>-\<close>, \<open>*\<close> and unary minus on
  \<open>uint256\<close> and \<open>int256\<close> revert (Panic) when the result leaves the type, division by zero
  reverts, and signed division truncates towards zero. An explicit conversion between
  \<open>uint256\<close> and \<open>int256\<close> is not checked: it reinterprets the 256 bits.

  A \<open>uint256\<close> is a \<open>nat\<close> below \<open>2 ^ 256\<close>, an \<open>int256\<close> an \<open>int\<close> in
  \<open>[- 2 ^ 255, 2 ^ 255)\<close>, an address a \<open>nat\<close>. A call returns \<open>Inl e\<close> when it
  reverts (the storage is then what it was before the call) and \<open>Inr\<close> of the new storage
  and the returned value otherwise. Each \<open>require\<close> message has its own constructor.
\<close>

type_synonym address = nat

datatype error =
    Panic                    \<comment> \<open>arithmetic overflow, underflow or division by zero\<close>
  | OnlyClearingHouse        \<comment> \<open>"Only ClearingHouse"\<close>
  | OnlyAdmin                \<comment> \<open>"Only admin"\<close>
  | TradingPaused            \<comment> \<open>"Trading paused"\<close>
  | AmountMustBePositive     \<comment> \<open>"Amount must be positive"\<close>
  | SlippageExceeded         \<comment> \<open>"Slippage exceeded"\<close>
  | InvalidReserves          \<comment> \<open>"Invalid reserves"\<close>
  | MarketNotActive          \<comment> \<open>"Market not active"\<close>
  | LeverageTooHigh          \<comment> \<open>"Leverage too high"\<close>
  | NoPosition               \<comment> \<open>"No position"\<close>
  | InvalidRatio             \<comment> \<open>"Invalid ratio"\<close>
  | NotLiquidatable          \<comment> \<open>"Not liquidatable"\<close>
  | InsufficientCollateral   \<comment> \<open>"Insufficient collateral"\<close>
  | MarginViolation          \<comment> \<open>"Would violate margin requirements"\<close>
  | TooEarly                 \<comment> \<open>"Too early"\<close>
  | InvalidPeriod            \<comment> \<open>"Invalid period"\<close>
  | RateTooHigh              \<comment> \<open>"Rate too high"\<close>
  | CannotConvertNegative    \<comment> \<open>"Cannot convert negative"\<close>

type_synonym 'a result = "error + 'a"

definition and_then :: "'a result \<Rightarrow> ('a \<Rightarrow> 'b result) \<Rightarrow> 'b result" where
  "and_then m f = (case m of Inl e \<Rightarrow> Inl e | Inr x \<Rightarrow> f x)"

definition require :: "bool \<Rightarrow> error \<Rightarrow> unit result" where
  "require c e = (if c then Inr () else Inl e)"

text \<open>The storage after a call: a revert discards every write.\<close>

definition storage_after :: "'s \<Rightarrow> ('s \<times> 'a) result \<Rightarrow> 's" where
  "storage_after s r = (case r of Inl e \<Rightarrow> s | Inr (s', v) \<Rightarrow> s')"

subsection \<open>\<open>uint256\<close>\<close>

definition uadd :: "nat \<Rightarrow> nat \<Rightarrow> nat result" where
  "uadd a b = (if a + b < 2 ^ 256 then Inr (a + b) else Inl Panic)"

definition usub :: "nat \<Rightarrow> nat \<Rightarrow> nat result" where
  "usub a b = (if b \<le> a then Inr (a - b) else Inl Panic)"

definition umul :: "nat \<Rightarrow> nat \<Rightarrow> nat result" where
  "umul a b = (if a * b < 2 ^ 256 then Inr (a * b) else Inl Panic)"

definition udiv :: "nat \<Rightarrow> nat \<Rightarrow> nat result" where
  "udiv a b = (if b = 0 then Inl Panic else Inr (a div b))"

subsection \<open>\<open>int256\<close>\<close>

definition chk :: "int \<Rightarrow> int result" where
  "chk x = (if - (2 ^ 255) \<le> x \<and> x < 2 ^ 255 then Inr x else Inl Panic)"

definition sadd :: "int \<Rightarrow> int \<Rightarrow> int result" where
  "sadd a b = chk (a + b)"

definition ssub :: "int \<Rightarrow> int \<Rightarrow> int result" where
  "ssub a b = chk (a - b)"

definition smul :: "int \<Rightarrow> int \<Rightarrow> int result" where
  "smul a b = chk (a * b)"

definition sneg :: "int \<Rightarrow> int result" where
  "sneg a = chk (- a)"

definition tdiv :: "int \<Rightarrow> int \<Rightarrow> int" where
  "tdiv a b = sgn a * sgn b * (\<bar>a\<bar> div \<bar>b\<bar>)"

definition sdiv :: "int \<Rightarrow> int \<Rightarrow> int result" where
  "sdiv a b = (if b = 0 then Inl Panic else chk (tdiv a b))"

definition to_int256 :: "nat \<Rightarrow> int" where
  "to_int256 n = (if n < 2 ^ 255 then int n else int n - 2 ^ 256)"

definition to_uint256 :: "int \<Rightarrow> nat" where
  "to_uint256 i = (if 0 \<le> i then nat i else nat (i + 2 ^ 256))"

section \<open>libraries Decimal and SignedDecimal (libraries/SignedDecimal.sol)\<close>

text \<open>
  \<open>Decimal.D256\<close> and \<open>SignedDecimal.S256\<close> are structs with the single field
  \<open>value\<close>; they are modelled by that value.
\<close>

type_synonym D256 = nat
type_synonym S256 = int

definition UNIT :: nat where
  "UNIT = 10 ^ 18"

definition Decimal_zero :: D256 where
  "Decimal_zero = 0"

definition Decimal_d256 :: "nat \<Rightarrow> D256" where
  "Decimal_d256 v = v"

definition Decimal_add :: "D256 \<Rightarrow> D256 \<Rightarrow> D256 result" where
  "Decimal_add self b = uadd self b"

definition Decimal_sub :: "D256 \<Rightarrow> D256 \<Rightarrow> D256 result" where
  "Decimal_sub self b = usub self b"

definition Decimal_mul :: "D256 \<Rightarrow> nat \<Rightarrow> D256 result" where
  "Decimal_mul self b = umul self b"

definition Decimal_div :: "D256 \<Rightarrow> nat \<Rightarrow> D256 result" where
  "Decimal_div self b = udiv self b"

definition Decimal_mulD :: "D256 \<Rightarrow> D256 \<Rightarrow> D256 result" where
  "Decimal_mulD self b = and_then (umul self b) (\<lambda>p. udiv p UNIT)"

definition Decimal_divD :: "D256 \<Rightarrow> D256 \<Rightarrow> D256 result" where
  "Decimal_divD self b = and_then (umul self UNIT) (\<lambda>p. udiv p b)"

definition Decimal_isZero :: "D256 \<Rightarrow> bool" where
  "Decimal_isZero self = (self = 0)"

definition Decimal_gte :: "D256 \<Rightarrow> D256 \<Rightarrow> bool" where
  "Decimal_gte self b = (self \<ge> b)"

definition Decimal_lt :: "D256 \<Rightarrow> D256 \<Rightarrow> bool" where
  "Decimal_lt self b = (self < b)"

definition Decimal_toSigned :: "D256 \<Rightarrow> S256" where
  "Decimal_toSigned self = to_int256 self"

definition SignedDecimal_zero :: S256 where
  "SignedDecimal_zero = 0"

definition SignedDecimal_s256 :: "int \<Rightarrow> S256" where
  "SignedDecimal_s256 v = v"

definition SignedDecimal_add :: "S256 \<Rightarrow> S256 \<Rightarrow> S256 result" where
  "SignedDecimal_add self b = sadd self b"

definition SignedDecimal_sub :: "S256 \<Rightarrow> S256 \<Rightarrow> S256 result" where
  "SignedDecimal_sub self b = ssub self b"

definition SignedDecimal_abs :: "S256 \<Rightarrow> D256 result" where
  "SignedDecimal_abs self =
     (if self \<ge> 0 then Inr (to_uint256 self)
      else and_then (sneg self) (\<lambda>n. Inr (to_uint256 n)))"

definition SignedDecimal_isPositive :: "S256 \<Rightarrow> bool" where
  "SignedDecimal_isPositive self = (self > 0)"

definition SignedDecimal_toUnsigned :: "S256 \<Rightarrow> D256 result" where
  "SignedDecimal_toUnsigned self =
     and_then (require (self \<ge> 0) CannotConvertNegative) (\<lambda>_. Inr (to_uint256 self))"

section \<open>amm/Vamm.sol\<close>

record Vamm =
  virtualBase :: D256
  virtualQuote :: D256
  k :: D256
  vamm_clearingHouse :: address
  vamm_admin :: address
  isPaused :: bool

definition FEE_RATIO :: nat where
  "FEE_RATIO = 30"

definition BASIS_POINTS :: nat where
  "BASIS_POINTS = 10000"

text \<open>
  The curve step shared by \<open>swap\<close> and \<open>getAmountOut\<close> (the two functions repeat the same
  lines): fee, input after fee, the two new reserves and the output.
\<close>

definition curve :: "Vamm \<Rightarrow> bool \<Rightarrow> nat \<Rightarrow> (D256 \<times> D256 \<times> D256) result" where
  "curve s isLong amountIn =
     (let dAmountIn = Decimal_d256 amountIn in
      and_then (Decimal_mul dAmountIn FEE_RATIO) (\<lambda>x.
      and_then (Decimal_div x BASIS_POINTS) (\<lambda>fee.
      and_then (Decimal_sub dAmountIn fee) (\<lambda>amountInAfterFee.
      if isLong then
        and_then (Decimal_add (virtualQuote s) amountInAfterFee) (\<lambda>newQuote.
        and_then (Decimal_divD (k s) newQuote) (\<lambda>newBase.
        and_then (Decimal_sub (virtualBase s) newBase) (\<lambda>amountOut.
        Inr (newBase, newQuote, amountOut))))
      else
        and_then (Decimal_add (virtualBase s) amountInAfterFee) (\<lambda>newBase.
        and_then (Decimal_divD (k s) newBase) (\<lambda>newQuote.
        and_then (Decimal_sub (virtualQuote s) newQuote) (\<lambda>amountOut.
        Inr (newBase, newQuote, amountOut))))))))"

text \<open>
  The trading fee of a swap, the first line of that step
  (\<open>dAmountIn.mul(FEE_RATIO).div(BASIS_POINTS)\<close>), on its own.
\<close>

definition tradingFee :: "nat \<Rightarrow> D256 result" where
  "tradingFee amountIn =
     and_then (Decimal_mul (Decimal_d256 amountIn) FEE_RATIO) (\<lambda>x. Decimal_div x BASIS_POINTS)"

text \<open>
  \<open>swap\<close>, with its modifiers \<open>onlyClearingHouse\<close> and \<open>whenNotPaused\<close> in the order of
  the source. The \<open>Swapped\<close> event computes nothing that can revert and is left out.
\<close>

definition swap :: "Vamm \<Rightarrow> address \<Rightarrow> bool \<Rightarrow> nat \<Rightarrow> nat \<Rightarrow> (Vamm \<times> nat) result" where
  "swap s sender isLong amountIn minAmountOut =
     and_then (require (sender = vamm_clearingHouse s) OnlyClearingHouse) (\<lambda>_.
     and_then (require (\<not> isPaused s) TradingPaused) (\<lambda>_.
     and_then (require (amountIn > 0) AmountMustBePositive) (\<lambda>_.
     and_then (curve s isLong amountIn) (\<lambda>(newBase, newQuote, amountOut).
     and_then (require (amountOut \<ge> minAmountOut) SlippageExceeded) (\<lambda>_.
     Inr (s\<lparr>virtualBase := newBase, virtualQuote := newQuote\<rparr>, amountOut))))))"

definition getAmountOut :: "Vamm \<Rightarrow> bool \<Rightarrow> nat \<Rightarrow> nat result" where
  "getAmountOut s isLong amountIn =
     (if amountIn = 0 then Inr 0
      else and_then (curve s isLong amountIn) (\<lambda>(newBase, newQuote, amountOut). Inr amountOut))"

definition adjustReserves :: "Vamm \<Rightarrow> address \<Rightarrow> D256 \<Rightarrow> D256 \<Rightarrow> Vamm result" where
  "adjustReserves s sender newBase newQuote =
     and_then (require (sender = vamm_admin s) OnlyAdmin) (\<lambda>_.
     and_then (require (newBase > 0 \<and> newQuote > 0) InvalidReserves) (\<lambda>_.
     and_then (Decimal_mulD newBase newQuote) (\<lambda>newK.
     Inr (s\<lparr>virtualBase := newBase, virtualQuote := newQuote, k := newK\<rparr>))))"

definition Vamm_constructor :: "D256 \<Rightarrow> D256 \<Rightarrow> address \<Rightarrow> address \<Rightarrow> Vamm result" where
  "Vamm_constructor base quote ch deployer =
     and_then (require (base > 0 \<and> quote > 0) InvalidReserves) (\<lambda>_.
     and_then (Decimal_mulD base quote) (\<lambda>k0.
     Inr \<lparr>virtualBase = base, virtualQuote = quote, k = k0, vamm_clearingHouse = ch,
          vamm_admin = deployer, isPaused = False\<rparr>))"

text \<open>A sequence of \<open>swap\<close> calls by one caller, stopping at the first revert.\<close>

fun swaps :: "Vamm \<Rightarrow> address \<Rightarrow> (bool \<times> nat \<times> nat) list \<Rightarrow> Vamm result" where
  "swaps s sender [] = Inr s"
| "swaps s sender ((isLong, amountIn, minAmountOut) # cs) =
     and_then (swap s sender isLong amountIn minAmountOut) (\<lambda>(s', out). swaps s' sender cs)"

text \<open>
  The deployment of \<open>test/perp.test.js\<close>: base reserve \<open>1000e18\<close>, quote reserve
  \<open>2000000e18\<close>, \<open>k = base.mulD(quote)\<close> as the constructor computes it. Address 202 is
  the ClearingHouse, 100 the deployer.
\<close>

definition vamm0 :: Vamm where
  "vamm0 = \<lparr>virtualBase = 1000 * 10 ^ 18, virtualQuote = 2000000 * 10 ^ 18,
            k = 2000000000 * 10 ^ 18, vamm_clearingHouse = 202, vamm_admin = 100,
            isPaused = False\<rparr>"

definition vamm1 :: Vamm where
  "vamm1 = vamm0\<lparr>virtualBase := 999501748378433350974,
                  virtualQuote := 2000997000000000000000000\<rparr>"

definition vamm2 :: Vamm where
  "vamm2 = vamm1\<lparr>virtualBase := 1000498748378433350974,
                  virtualQuote := 1999003000495019705827347\<rparr>"

section \<open>contract ClearingHouse\<close>

record Position =
  psize :: int               \<comment> \<open>\<open>int256 size\<close>\<close>
  collateral :: nat
  entryPrice :: nat
  fundingIndex :: int
  lastUpdated :: nat
  openNotional :: nat

record Market =
  baseToken :: address
  vamm :: address
  isActive :: bool
  maxLeverage :: nat
  maintenanceMarginRatio :: nat
  liquidationFeeRatio :: nat

record ClearingHouse =
  positions :: "address \<Rightarrow> address \<Rightarrow> Position"   \<comment> \<open>trader, then base token\<close>
  markets :: "address \<Rightarrow> Market"
  ch_vault :: address
  ch_accountBalance :: address
  ch_insuranceFund :: address
  ch_exchange :: address
  ch_admin :: address

record PositionChanged =
  pc_trader :: address
  pc_baseToken :: address
  exchangedPositionSize :: int
  exchangedPositionNotional :: nat
  pc_fee :: nat
  realizedPnl :: int

record PositionLiquidated =
  pl_trader :: address
  pl_baseToken :: address
  positionNotional :: nat
  liquidationFee :: nat
  liquidator :: address

text \<open>The value of a storage slot that was never written, and of one after \<open>delete\<close>.\<close>

definition empty_Position :: Position where
  "empty_Position = \<lparr>psize = 0, collateral = 0, entryPrice = 0, fundingIndex = 0,
                      lastUpdated = 0, openNotional = 0\<rparr>"

definition empty_Market :: Market where
  "empty_Market = \<lparr>baseToken = 0, vamm = 0, isActive = False, maxLeverage = 0,
                    maintenanceMarginRatio = 0, liquidationFeeRatio = 0\<rparr>"

definition set_position :: "ClearingHouse \<Rightarrow> address \<Rightarrow> address \<Rightarrow> Position \<Rightarrow> ClearingHouse" where
  "set_position s trader tok p =
     s\<lparr>positions := (positions s)(trader := (positions s trader)(tok := p))\<rparr>"

text \<open>\<open>uint256(x > 0 ? x : -x)\<close>: the unary minus is checked.\<close>

definition abs_size :: "int \<Rightarrow> nat result" where
  "abs_size x = and_then (if x > 0 then Inr x else sneg x) (\<lambda>a. Inr (to_uint256 a))"

text \<open>
  \<open>openPosition\<close>: \<open>sender\<close> is \<open>msg.sender\<close>, \<open>now\<close> is \<open>block.timestamp\<close>. The result
  is the new storage, the returned \<open>baseAmount\<close> and the \<open>PositionChanged\<close> event.
\<close>

definition openPosition ::
  "ClearingHouse \<Rightarrow> address \<Rightarrow> nat \<Rightarrow> address \<Rightarrow> bool \<Rightarrow> nat \<Rightarrow> nat \<Rightarrow> nat
     \<Rightarrow> (ClearingHouse \<times> nat \<times> PositionChanged) result" where
  "openPosition s sender now tok isLong collateralAmount leverage minBaseAmount =
     (let market = markets s tok in
      and_then (require (isActive market) MarketNotActive) (\<lambda>_.
      and_then (require (leverage \<le> maxLeverage market) LeverageTooHigh) (\<lambda>_.
      and_then (umul collateralAmount leverage) (\<lambda>x.
      and_then (udiv x BASIS_POINTS) (\<lambda>notional.
      let baseAmount = notional in
      and_then (require (baseAmount \<ge> minBaseAmount) SlippageExceeded) (\<lambda>_.
      and_then (if isLong then Inr (to_int256 baseAmount) else sneg (to_int256 baseAmount))
        (\<lambda>newSize.
      let pos = positions s sender tok in
      and_then
        (if psize pos = 0 then
           and_then (umul notional UNIT) (\<lambda>y.
           and_then (udiv y baseAmount) (\<lambda>price.
           Inr (pos\<lparr>psize := newSize, collateral := collateralAmount,
                    entryPrice := price, openNotional := notional\<rparr>)))
         else
           and_then (uadd (openNotional pos) notional) (\<lambda>totalNotional.
           and_then (abs_size (psize pos)) (\<lambda>a.
           and_then (uadd a baseAmount) (\<lambda>totalSize.
           and_then (umul totalNotional UNIT) (\<lambda>y.
           and_then (udiv y totalSize) (\<lambda>price.
           and_then (sadd (psize pos) newSize) (\<lambda>sz.
           and_then (uadd (collateral pos) collateralAmount) (\<lambda>coll.
           Inr (pos\<lparr>entryPrice := price, psize := sz, collateral := coll,
                    openNotional := totalNotional\<rparr>)))))))))
        (\<lambda>pos'.
      Inr (set_position s sender tok (pos'\<lparr>lastUpdated := now\<rparr>), baseAmount,
           \<lparr>pc_trader = sender, pc_baseToken = tok, exchangedPositionSize = newSize,
            exchangedPositionNotional = notional, pc_fee = 0, realizedPnl = 0\<rparr>)))))))))"

definition closePosition ::
  "ClearingHouse \<Rightarrow> address \<Rightarrow> nat \<Rightarrow> address \<Rightarrow> nat
     \<Rightarrow> (ClearingHouse \<times> int \<times> PositionChanged) result" where
  "closePosition s sender now tok closeRatio =
     (let pos = positions s sender tok in
      and_then (require (psize pos \<noteq> 0) NoPosition) (\<lambda>_.
      and_then (require (closeRatio \<le> BASIS_POINTS) InvalidRatio) (\<lambda>_.
      let isLong = (psize pos > 0) in
      and_then (abs_size (psize pos)) (\<lambda>posSize.
      and_then (umul posSize closeRatio) (\<lambda>x.
      and_then (udiv x BASIS_POINTS) (\<lambda>closeSize.
      and_then (umul closeSize (entryPrice pos)) (\<lambda>y.
      and_then (udiv y UNIT) (\<lambda>closeNotional.
      let currentPrice = entryPrice pos in
      and_then (umul closeSize currentPrice) (\<lambda>z.
      and_then (udiv z UNIT) (\<lambda>currentNotional.
      and_then
        (if isLong then ssub (to_int256 currentNotional) (to_int256 closeNotional)
         else ssub (to_int256 closeNotional) (to_int256 currentNotional)) (\<lambda>pnl.
      and_then
        (if closeRatio = BASIS_POINTS then Inr empty_Position
         else
           and_then
             (if isLong then ssub (psize pos) (to_int256 closeSize)
              else sadd (psize pos) (to_int256 closeSize)) (\<lambda>sz.
           and_then (usub BASIS_POINTS closeRatio) (\<lambda>r1.
           and_then (umul (collateral pos) r1) (\<lambda>c1.
           and_then (udiv c1 BASIS_POINTS) (\<lambda>coll.
           and_then (usub BASIS_POINTS closeRatio) (\<lambda>r2.
           and_then (umul (openNotional pos) r2) (\<lambda>n1.
           and_then (udiv n1 BASIS_POINTS) (\<lambda>notional.
           Inr (pos\<lparr>psize := sz, collateral := coll, openNotional := notional,
                    lastUpdated := now\<rparr>)))))))))
        (\<lambda>pos'.
      and_then (sneg (to_int256 closeSize)) (\<lambda>negCloseSize.
      Inr (set_position s sender tok pos', pnl,
           \<lparr>pc_trader = sender, pc_baseToken = tok, exchangedPositionSize = negCloseSize,
            exchangedPositionNotional = closeNotional, pc_fee = 0,
            realizedPnl = pnl\<rparr>))))))))))))))"

text \<open>
  Lines 186 to 188 of \<open>liquidate\<close>: the position value at the entry price and the margin
  ratio in basis points.
\<close>

definition positionMarginRatio :: "Position \<Rightarrow> (nat \<times> nat) result" where
  "positionMarginRatio pos =
     and_then (abs_size (psize pos)) (\<lambda>posSize.
     and_then (umul posSize (entryPrice pos)) (\<lambda>x.
     and_then (udiv x UNIT) (\<lambda>posValue.
     and_then (umul (collateral pos) BASIS_POINTS) (\<lambda>y.
     and_then (udiv y posValue) (\<lambda>marginRatio.
     Inr (posValue, marginRatio))))))"

definition liquidate ::
  "ClearingHouse \<Rightarrow> address \<Rightarrow> address \<Rightarrow> address
     \<Rightarrow> (ClearingHouse \<times> PositionLiquidated) result" where
  "liquidate s sender trader tok =
     (let pos = positions s trader tok in
      and_then (require (psize pos \<noteq> 0) NoPosition) (\<lambda>_.
      let market = markets s tok in
      and_then (positionMarginRatio pos) (\<lambda>(posValue, marginRatio).
      and_then (require (marginRatio < maintenanceMarginRatio market) NotLiquidatable) (\<lambda>_.
      and_then (umul (collateral pos) (liquidationFeeRatio market)) (\<lambda>x.
      and_then (udiv x BASIS_POINTS) (\<lambda>fee.
      Inr (set_position s trader tok empty_Position,
           \<lparr>pl_trader = trader, pl_baseToken = tok, positionNotional = posValue,
            liquidationFee = fee, liquidator = sender\<rparr>)))))))"

definition ClearingHouse_constructor ::
  "address \<Rightarrow> address \<Rightarrow> address \<Rightarrow> address \<Rightarrow> address \<Rightarrow> ClearingHouse" where
  "ClearingHouse_constructor v ab ins ex deployer =
     \<lparr>positions = (\<lambda>trader tok. empty_Position), markets = (\<lambda>tok. empty_Market),
      ch_vault = v, ch_accountBalance = ab, ch_insuranceFund = ins, ch_exchange = ex,
      ch_admin = deployer\<rparr>"

definition addMarket :: "ClearingHouse \<Rightarrow> address \<Rightarrow> address \<Rightarrow> address \<Rightarrow> nat \<Rightarrow> ClearingHouse result" where
  "addMarket s sender tok vammAddr maxLev =
     and_then (require (sender = ch_admin s) OnlyAdmin) (\<lambda>_.
     Inr (s\<lparr>markets := (markets s)(tok :=
            \<lparr>baseToken = tok, vamm = vammAddr, isActive = True, maxLeverage = maxLev,
             maintenanceMarginRatio = 50, liquidationFeeRatio = 500\<rparr>)\<rparr>))"

text \<open>
  The ClearingHouse of \<open>test/perp.test.js\<close> after \<open>addMarket(vamm, vamm, 10000)\<close>: the
  vAMM's address 200 stands for the base token, 201 is the AccountBalance, 203 the
  InsuranceFund, 101 and 102 are the two traders.
\<close>

definition ch0 :: ClearingHouse where
  "ch0 = \<lparr>positions = (\<lambda>trader tok. empty_Position),
          markets = (\<lambda>tok. empty_Market)(200 :=
            \<lparr>baseToken = 200, vamm = 200, isActive = True, maxLeverage = 10000,
             maintenanceMarginRatio = 50, liquidationFeeRatio = 500\<rparr>),
          ch_vault = 0, ch_accountBalance = 201, ch_insuranceFund = 203, ch_exchange = 0,
          ch_admin = 100\<rparr>"

text \<open>
  \<open>ch1\<close>: trader 101 has opened a long position with collateral \<open>100e18\<close> and leverage
  1000 at time 10. \<open>ch2\<close>: the same trader has then opened a short position with the same
  collateral and leverage at time 20.
\<close>

definition pos1 :: Position where
  "pos1 = \<lparr>psize = 10000000000000000000, collateral = 100000000000000000000,
           entryPrice = 1000000000000000000, fundingIndex = 0, lastUpdated = 10,
           openNotional = 10000000000000000000\<rparr>"

definition ch1 :: ClearingHouse where
  "ch1 = set_position ch0 101 200 pos1"

definition pos2 :: Position where
  "pos2 = \<lparr>psize = 0, collateral = 200000000000000000000,
           entryPrice = 1000000000000000000, fundingIndex = 0, lastUpdated = 20,
           openNotional = 20000000000000000000\<rparr>"

definition ch2 :: ClearingHouse where
  "ch2 = set_position ch1 101 200 pos2"

text \<open>
  Two stored positions of size 10000 at entry price \<open>1e18\<close>: \<open>pos_at\<close> with collateral
  50, a margin ratio of exactly 50 basis points, and \<open>pos_below\<close> with collateral 49.
\<close>

definition pos_at :: Position where
  "pos_at = \<lparr>psize = 10000, collateral = 50, entryPrice = 1000000000000000000,
             fundingIndex = 0, lastUpdated = 10, openNotional = 10000\<rparr>"

definition pos_below :: Position where
  "pos_below = pos_at\<lparr>collateral := 49\<rparr>"

definition ch_at :: ClearingHouse where
  "ch_at = set_position ch0 101 200 pos_at"

definition ch_below :: ClearingHouse where
  "ch_below = set_position ch0 101 200 pos_below"

text \<open>
  A second market, 300, added with \<open>maxLeverage = 2000000\<close>, on which trader 101 has
  opened a long position with collateral \<open>50e18\<close> at that leverage: notional \<open>1e22\<close>,
  a margin ratio of 50 basis points.
\<close>

definition ch_hl0 :: ClearingHouse where
  "ch_hl0 = ch0\<lparr>markets := (markets ch0)(300 :=
      \<lparr>baseToken = 300, vamm = 300, isActive = True, maxLeverage = 2000000,
       maintenanceMarginRatio = 50, liquidationFeeRatio = 500\<rparr>)\<rparr>"

definition pos_hl :: Position where
  "pos_hl = \<lparr>psize = 10000000000000000000000, collateral = 50000000000000000000,
             entryPrice = 1000000000000000000, fundingIndex = 0, lastUpdated = 10,
             openNotional = 10000000000000000000000\<rparr>"

definition ch_hl :: ClearingHouse where
  "ch_hl = set_position ch_hl0 101 300 pos_hl"

section \<open>core/AccountBalance.sol\<close>

record AccountBalance =
  ab_collateral :: "address \<Rightarrow> D256"                  \<comment> \<open>\<open>collateral\<close>\<close>
  positionValue :: "address \<Rightarrow> address \<Rightarrow> D256"
  unrealizedPnl :: "address \<Rightarrow> address \<Rightarrow> S256"
  ab_clearingHouse :: address
  ab_vault :: address

definition INITIAL_MARGIN_RATIO :: nat where
  "INITIAL_MARGIN_RATIO = 100"

definition MAINTENANCE_MARGIN_RATIO :: nat where
  "MAINTENANCE_MARGIN_RATIO = 50"

definition deposit :: "AccountBalance \<Rightarrow> address \<Rightarrow> address \<Rightarrow> D256 \<Rightarrow> AccountBalance result" where
  "deposit s sender trader amount =
     and_then (require (sender = ab_clearingHouse s) OnlyClearingHouse) (\<lambda>_.
     and_then (Decimal_add (ab_collateral s trader) amount) (\<lambda>c.
     Inr (s\<lparr>ab_collateral := (ab_collateral s)(trader := c)\<rparr>)))"

definition canWithdraw :: "AccountBalance \<Rightarrow> address \<Rightarrow> D256 \<Rightarrow> bool result" where
  "canWithdraw s trader amount =
     and_then (Decimal_sub (ab_collateral s trader) amount) (\<lambda>remainingCollateral.
     Inr True)"

definition withdraw :: "AccountBalance \<Rightarrow> address \<Rightarrow> address \<Rightarrow> D256 \<Rightarrow> AccountBalance result" where
  "withdraw s sender trader amount =
     and_then (require (sender = ab_clearingHouse s) OnlyClearingHouse) (\<lambda>_.
     and_then (require (Decimal_gte (ab_collateral s trader) amount) InsufficientCollateral) (\<lambda>_.
     and_then (canWithdraw s trader amount) (\<lambda>ok.
     and_then (require ok MarginViolation) (\<lambda>_.
     and_then (Decimal_sub (ab_collateral s trader) amount) (\<lambda>c.
     Inr (s\<lparr>ab_collateral := (ab_collateral s)(trader := c)\<rparr>))))))"

definition getAccountValue :: "AccountBalance \<Rightarrow> address \<Rightarrow> S256" where
  "getAccountValue s trader = (let totalValue = Decimal_toSigned (ab_collateral s trader) in totalValue)"

definition getMarginRatio :: "AccountBalance \<Rightarrow> address \<Rightarrow> nat result" where
  "getMarginRatio s trader =
     (let accountValue = getAccountValue s trader;
          totalPositionValue = Decimal_zero in
      if Decimal_isZero totalPositionValue then Inr 0
      else
        and_then (SignedDecimal_toUnsigned accountValue) (\<lambda>u.
        and_then (umul u BASIS_POINTS) (\<lambda>x.
        udiv x totalPositionValue)))"

text \<open>
  The last line of \<open>getMarginRatio\<close>,
  \<open>accountValue.toUnsigned().value * BASIS_POINTS / totalPositionValue.value\<close>, for a
  given total position value. \<open>getMarginRatio\<close> itself never reaches it: its total
  position value is the constant zero.
\<close>

definition marginRatioOver :: "AccountBalance \<Rightarrow> address \<Rightarrow> D256 \<Rightarrow> nat result" where
  "marginRatioOver s trader totalPositionValue =
     and_then (SignedDecimal_toUnsigned (getAccountValue s trader)) (\<lambda>u.
     and_then (umul u BASIS_POINTS) (\<lambda>x.
     udiv x totalPositionValue))"

definition isLiquidatable :: "AccountBalance \<Rightarrow> address \<Rightarrow> bool result" where
  "isLiquidatable s trader =
     and_then (getMarginRatio s trader) (\<lambda>ratio.
     Inr (ratio < MAINTENANCE_MARGIN_RATIO \<and> ratio > 0))"

definition getCollateral :: "AccountBalance \<Rightarrow> address \<Rightarrow> nat" where
  "getCollateral s trader = ab_collateral s trader"

text \<open>
  An AccountBalance whose \<open>clearingHouse\<close> is the ClearingHouse at address 202 and in
  which trader 101 holds a free balance of \<open>50e18\<close>.
\<close>

definition ab0 :: AccountBalance where
  "ab0 = \<lparr>ab_collateral = (\<lambda>trader. 0)(101 := 50 * 10 ^ 18),
          positionValue = (\<lambda>trader tok. 0), unrealizedPnl = (\<lambda>trader tok. 0),
          ab_clearingHouse = 202, ab_vault = 0\<rparr>"

text \<open>
  \<open>ab_hl\<close>: \<open>ab0\<close> after a further deposit of \<open>50e18\<close> for trader 101, a free balance
  of \<open>100e18\<close>; \<open>ab_hl_after\<close>: after the withdrawal of all of it; \<open>ab_low\<close>: a free
  balance of 49 for the trader.
\<close>

definition ab_hl :: AccountBalance where
  "ab_hl = ab0\<lparr>ab_collateral := (ab_collateral ab0)(101 := 100000000000000000000)\<rparr>"

definition ab_hl_after :: AccountBalance where
  "ab_hl_after = ab_hl\<lparr>ab_collateral := (ab_collateral ab_hl)(101 := 0)\<rparr>"

definition ab_low :: AccountBalance where
  "ab_low = ab0\<lparr>ab_collateral := (ab_collateral ab0)(101 := 49)\<rparr>"

section \<open>contract Funding (second contract of core/InsuranceFund.sol)\<close>

record FundingGrowth =
  longFundingRate :: S256
  shortFundingRate :: S256
  timestamp :: nat
  cumulativeFunding :: S256

record Funding =
  fundingGrowth :: "address \<Rightarrow> FundingGrowth"
  traderFundingIndex :: "address \<Rightarrow> address \<Rightarrow> S256"
  fundingPeriod :: nat
  maxFundingRate :: nat
  f_clearingHouse :: address
  f_admin :: address

definition ONE_DAY :: nat where
  "ONE_DAY = 86400"

definition updateFundingRate ::
  "Funding \<Rightarrow> address \<Rightarrow> nat \<Rightarrow> address \<Rightarrow> int \<Rightarrow> int \<Rightarrow> nat \<Rightarrow> nat
     \<Rightarrow> (Funding \<times> S256) result" where
  "updateFundingRate s sender now tok markPrice indexPrice longOpenInterest shortOpenInterest =
     and_then (require (sender = f_clearingHouse s) OnlyClearingHouse) (\<lambda>_.
     let growth = fundingGrowth s tok in
     and_then (uadd (timestamp growth) (fundingPeriod s)) (\<lambda>due.
     and_then (require (now \<ge> due) TooEarly) (\<lambda>_.
     and_then (ssub markPrice indexPrice) (\<lambda>d.
     and_then (smul d (to_int256 BASIS_POINTS)) (\<lambda>n.
     and_then (sdiv n indexPrice) (\<lambda>premium.
     and_then (smul premium (to_int256 (fundingPeriod s))) (\<lambda>m.
     and_then (sdiv m (to_int256 ONE_DAY)) (\<lambda>rate0.
     let rate1 = (if rate0 > to_int256 (maxFundingRate s) then to_int256 (maxFundingRate s)
                  else rate0) in
     and_then (sneg (to_int256 (maxFundingRate s))) (\<lambda>negMax.
     let fundingRate = (if rate1 < negMax then negMax else rate1) in
     let signedRate = SignedDecimal_s256 fundingRate in
     and_then (sneg fundingRate) (\<lambda>negRate.
     and_then (SignedDecimal_add (cumulativeFunding growth) signedRate) (\<lambda>cum.
     Inr (s\<lparr>fundingGrowth := (fundingGrowth s)(tok :=
            growth\<lparr>longFundingRate := signedRate, shortFundingRate := SignedDecimal_s256 negRate,
                   cumulativeFunding := cum, timestamp := now\<rparr>)\<rparr>,
          signedRate))))))))))))"

definition settleFunding ::
  "Funding \<Rightarrow> address \<Rightarrow> address \<Rightarrow> address \<Rightarrow> int \<Rightarrow> (Funding \<times> S256) result" where
  "settleFunding s sender trader tok positionSize =
     and_then (require (sender = f_clearingHouse s) OnlyClearingHouse) (\<lambda>_.
     let growth = fundingGrowth s tok;
         lastIndex = traderFundingIndex s trader tok in
     and_then (SignedDecimal_sub (cumulativeFunding growth) lastIndex) (\<lambda>fundingDelta.
     and_then (smul positionSize fundingDelta) (\<lambda>x.
     and_then (sdiv x (to_int256 BASIS_POINTS)) (\<lambda>fundingOwed.
     Inr (s\<lparr>traderFundingIndex := (traderFundingIndex s)(trader :=
            (traderFundingIndex s trader)(tok := cumulativeFunding growth))\<rparr>,
          SignedDecimal_s256 fundingOwed)))))"

definition setFundingPeriod :: "Funding \<Rightarrow> address \<Rightarrow> nat \<Rightarrow> Funding result" where
  "setFundingPeriod s sender period =
     and_then (require (sender = f_admin s) OnlyAdmin) (\<lambda>_.
     and_then (require (period > 0) InvalidPeriod) (\<lambda>_.
     Inr (s\<lparr>fundingPeriod := period\<rparr>)))"

definition setMaxFundingRate :: "Funding \<Rightarrow> address \<Rightarrow> nat \<Rightarrow> Funding result" where
  "setMaxFundingRate s sender rate =
     and_then (require (sender = f_admin s) OnlyAdmin) (\<lambda>_.
     and_then (require (rate \<le> BASIS_POINTS) RateTooHigh) (\<lambda>_.
     Inr (s\<lparr>maxFundingRate := rate\<rparr>)))"

text \<open>Every state-changing entry point of the Funding contract, as one call.\<close>

datatype funding_call =
    UpdateFundingRate address int int nat nat
  | SettleFunding address address int
  | SetFundingPeriod nat
  | SetMaxFundingRate nat

fun funding_exec :: "Funding \<Rightarrow> address \<Rightarrow> nat \<Rightarrow> funding_call \<Rightarrow> Funding result" where
  "funding_exec s sender now (UpdateFundingRate tok markPrice indexPrice loi soi) =
     and_then (updateFundingRate s sender now tok markPrice indexPrice loi soi) (\<lambda>(s', r). Inr s')"
| "funding_exec s sender now (SettleFunding trader tok positionSize) =
     and_then (settleFunding s sender trader tok positionSize) (\<lambda>(s', r). Inr s')"
| "funding_exec s sender now (SetFundingPeriod period) = setFundingPeriod s sender period"
| "funding_exec s sender now (SetMaxFundingRate rate) = setMaxFundingRate s sender rate"

text \<open>
  The Funding contract as its constructor leaves it (period 8 hours, cap 1000 basis
  points), deployed by 100 for the ClearingHouse 202.
\<close>

definition funding0 :: Funding where
  "funding0 = \<lparr>fundingGrowth = (\<lambda>tok. \<lparr>longFundingRate = 0, shortFundingRate = 0,
                                         timestamp = 0, cumulativeFunding = 0\<rparr>),
               traderFundingIndex = (\<lambda>trader tok. 0),
               fundingPeriod = 28800, maxFundingRate = 1000,
               f_clearingHouse = 202, f_admin = 100\<rparr>"

text \<open>\<open>funding0\<close> after one update at time 28800 with mark price 2100 and index price 2000.\<close>

definition funding1 :: Funding where
  "funding1 = funding0\<lparr>fundingGrowth := (fundingGrowth funding0)(200 :=
      \<lparr>longFundingRate = 166, shortFundingRate = - 166, timestamp = 28800,
       cumulativeFunding = 166\<rparr>)\<rparr>"

text \<open>
  \<open>funding2\<close>: \<open>funding1\<close> after the admin has set the funding period to
  \<open>2 ^ 256 - 1\<close>.
\<close>

definition funding2 :: Funding where
  "funding2 = funding1\<lparr>fundingPeriod :=
      115792089237316195423570985008687907853269984665640564039457584007913129639935\<rparr>"

section \<open>The deployed system\<close>

text \<open>
  The storage of the three contracts side by side. \<open>openPosition\<close>, \<open>closePosition\<close> and
  \<open>liquidate\<close> make no external call, so a transaction that calls one of them changes the
  ClearingHouse's storage only; \<open>withdraw\<close> changes the AccountBalance's only.
\<close>

record World =
  clearingHouse :: ClearingHouse
  accountBalance :: AccountBalance
  vamms :: "address \<Rightarrow> Vamm"          \<comment> \<open>the storage of the vAMM deployed at an address\<close>

definition tx_openPosition ::
  "World \<Rightarrow> address \<Rightarrow> nat \<Rightarrow> address \<Rightarrow> bool \<Rightarrow> nat \<Rightarrow> nat \<Rightarrow> nat
     \<Rightarrow> (World \<times> nat \<times> PositionChanged) result" where
  "tx_openPosition w sender now tok isLong collateralAmount leverage minBaseAmount =
     and_then (openPosition (clearingHouse w) sender now tok isLong collateralAmount leverage
                 minBaseAmount)
       (\<lambda>(ch', r). Inr (w\<lparr>clearingHouse := ch'\<rparr>, r))"

definition tx_closePosition ::
  "World \<Rightarrow> address \<Rightarrow> nat \<Rightarrow> address \<Rightarrow> nat \<Rightarrow> (World \<times> int \<times> PositionChanged) result" where
  "tx_closePosition w sender now tok closeRatio =
     and_then (closePosition (clearingHouse w) sender now tok closeRatio)
       (\<lambda>(ch', r). Inr (w\<lparr>clearingHouse := ch'\<rparr>, r))"

definition no_Vamm :: Vamm where
  "no_Vamm = \<lparr>virtualBase = 0, virtualQuote = 0, k = 0, vamm_clearingHouse = 0,
              vamm_admin = 0, isPaused = False\<rparr>"

definition world0 :: World where
  "world0 = \<lparr>clearingHouse = ch0, accountBalance = ab0,
             vamms = (\<lambda>a. no_Vamm)(200 := vamm0)\<rparr>"

definition world1 :: World where
  "world1 = world0\<lparr>clearingHouse := ch1\<rparr>"

text \<open>
  \<open>world2\<close>: \<open>world1\<close> after trader 101 has closed the position in full; \<open>world3\<close>:
  \<open>world1\<close> after the trader has closed a quarter of it at time 50.
\<close>

definition world2 :: World where
  "world2 = world0\<lparr>clearingHouse := set_position ch1 101 200 empty_Position\<rparr>"

definition pos3 :: Position where
  "pos3 = \<lparr>psize = 7500000000000000000, collateral = 75000000000000000000,
           entryPrice = 1000000000000000000, fundingIndex = 0, lastUpdated = 50,
           openNotional = 7500000000000000000\<rparr>"

definition world3 :: World where
  "world3 = world0\<lparr>clearingHouse := set_position ch1 101 200 pos3\<rparr>"

section \<open>Reasoning about reverts\<close>

lemma and_then_Inr_iff:
  "and_then m f = Inr y \<longleftrightarrow> (\<exists>x. m = Inr x \<and> f x = Inr y)"
  by (cases m) (simp_all add: and_then_def)

lemma and_then_Inl_iff:
  "and_then m f = Inl e \<longleftrightarrow> m = Inl e \<or> (\<exists>x. m = Inr x \<and> f x = Inl e)"
  by (cases m) (simp_all add: and_then_def)

lemma and_then_Inr [simp]: "and_then (Inr x) f = f x"
  by (simp add: and_then_def)

lemma and_then_Inl [simp]: "and_then (Inl e) f = Inl e"
  by (simp add: and_then_def)

lemma require_Inr_iff: "require c e = Inr u \<longleftrightarrow> c"
  by (simp add: require_def)

lemma require_Inl_iff: "require c e = Inl e' \<longleftrightarrow> \<not> c \<and> e' = e"
  by (auto simp: require_def)

lemma require_True [simp]: "require True e = Inr ()"
  by (simp add: require_def)

lemma require_False [simp]: "require False e = Inl e"
  by (simp add: require_def)

lemma uadd_Inr_iff: "uadd a b = Inr c \<longleftrightarrow> a + b < 2 ^ 256 \<and> c = a + b"
  by (auto simp: uadd_def)

lemma usub_Inr_iff: "usub a b = Inr c \<longleftrightarrow> b \<le> a \<and> c = a - b"
  by (auto simp: usub_def)

lemma umul_Inr_iff: "umul a b = Inr c \<longleftrightarrow> a * b < 2 ^ 256 \<and> c = a * b"
  by (auto simp: umul_def)

lemma udiv_Inr_iff: "udiv a b = Inr c \<longleftrightarrow> b \<noteq> 0 \<and> c = a div b"
  by (auto simp: udiv_def)

lemma Decimal_divD_Inr_iff:
  "Decimal_divD a b = Inr c \<longleftrightarrow> a * UNIT < 2 ^ 256 \<and> b \<noteq> 0 \<and> c = a * UNIT div b"
  by (auto simp: Decimal_divD_def and_then_Inr_iff umul_Inr_iff udiv_Inr_iff)

section \<open>Virtual market maker\<close>

lemma curve_long:
  assumes "curve s True amountIn = Inr (newBase, newQuote, amountOut)"
  shows "newQuote \<noteq> 0 \<and> newBase = k s * UNIT div newQuote"
  using assms
  by (auto simp: curve_def Let_def and_then_Inr_iff Decimal_divD_Inr_iff)

lemma curve_short:
  assumes "curve s False amountIn = Inr (newBase, newQuote, amountOut)"
  shows "newBase \<noteq> 0 \<and> newQuote = k s * UNIT div newBase"
  using assms
  by (auto simp: curve_def Let_def and_then_Inr_iff Decimal_divD_Inr_iff)

lemma floor_product_bounds:
  fixes n d :: nat
  assumes "d \<noteq> 0"
  shows "(n div d) * d \<le> n \<and> n < (n div d) * d + d"
proof -
  have "n = (n div d) * d + n mod d" by simp
  moreover have "n mod d < d" using assms by simp
  ultimately show ?thesis by linarith
qed

lemma swap_step:
  assumes "swap s sender isLong amountIn minAmountOut = Inr (s', out)"
  shows "k s' = k s
       \<and> vamm_clearingHouse s' = vamm_clearingHouse s
       \<and> virtualBase s' * virtualQuote s' \<le> k s * UNIT
       \<and> k s * UNIT < virtualBase s' * virtualQuote s' + max (virtualBase s') (virtualQuote s')"
proof -
  from assms obtain newBase newQuote amountOut where
    c: "curve s isLong amountIn = Inr (newBase, newQuote, amountOut)" and
    s': "s' = s\<lparr>virtualBase := newBase, virtualQuote := newQuote\<rparr>"
    by (auto simp: swap_def and_then_Inr_iff split: prod.splits)
  show ?thesis
  proof (cases isLong)
    case True
    with c have "newQuote \<noteq> 0 \<and> newBase = k s * UNIT div newQuote"
      by (simp add: curve_long)
    then have q: "newQuote \<noteq> 0" and b: "newBase = k s * UNIT div newQuote"
      by simp_all
    from floor_product_bounds [OF q, of "k s * UNIT"] b
    have "newBase * newQuote \<le> k s * UNIT" "k s * UNIT < newBase * newQuote + newQuote"
      by simp_all
    then show ?thesis using s' by (simp add: max_def)
  next
    case False
    with c have "newBase \<noteq> 0 \<and> newQuote = k s * UNIT div newBase"
      by (simp add: curve_short)
    then have q: "newBase \<noteq> 0" and b: "newQuote = k s * UNIT div newBase"
      by simp_all
    from floor_product_bounds [OF q, of "k s * UNIT"] b
    have "newBase * newQuote \<le> k s * UNIT" "k s * UNIT < newBase * newQuote + newBase"
      by (simp_all add: mult.commute)
    then show ?thesis using s' by (simp add: max_def)
  qed
qed

lemmas vamm_eval = swap_def curve_def Decimal_mul_def Decimal_div_def Decimal_sub_def
  Decimal_add_def Decimal_divD_def Decimal_mulD_def Decimal_d256_def umul_def udiv_def
  usub_def uadd_def FEE_RATIO_def BASIS_POINTS_def UNIT_def

lemma vamm0_deployed:
  "Vamm_constructor 1000000000000000000000 2000000000000000000000000 202 100 = Inr vamm0"
  by (simp add: Vamm_constructor_def Decimal_mulD_def umul_def udiv_def UNIT_def vamm0_def)

lemma swap_vamm0:
  "swap vamm0 202 True 1000000000000000000000 0 = Inr (vamm1, 498251621566649026)"
  by (simp add: vamm_eval vamm0_def vamm1_def)

lemma swap_vamm1:
  "swap vamm1 202 False 1000000000000000000 0 = Inr (vamm2, 1993999504980294172653)"
  by (simp add: vamm_eval vamm0_def vamm1_def vamm2_def)

lemma swaps_vamm0:
  "swaps vamm0 202 [(True, 1000000000000000000000, 0), (False, 1000000000000000000, 0)]
     = Inr vamm2"
  by (simp add: swap_vamm0 swap_vamm1)

lemma vamm1_raw_product: "virtualBase vamm1 * virtualQuote vamm1 \<noteq> k vamm1"
  by (simp add: vamm0_def vamm1_def)

lemma vamm1_mulD_product:
  "Decimal_mulD (virtualBase vamm1) (virtualQuote vamm1) = Inr 1999999999999999999998921078"
  by (simp add: vamm0_def vamm1_def Decimal_mulD_def umul_def udiv_def UNIT_def)

lemma k_vamm1: "k vamm1 = 2000000000000000000000000000"
  by (simp add: vamm0_def vamm1_def)

text \<open>
  C1, as stated, fails. On the deployment of the test suite (base \<open>1000e18\<close>, quote
  \<open>2000000e18\<close>, \<open>k = 2e27\<close>) one long swap of \<open>1000e18\<close> succeeds and leaves reserves
  whose product is not \<open>k\<close>: neither the raw product of the two stored values nor their
  fixed-point product \<open>base.mulD(quote)\<close>, which is \<open>1078922\<close> units short of \<open>k\<close>.
\<close>

theorem swap_product_not_k_counterexample:
  "swap vamm0 202 True 1000000000000000000000 0 = Inr (vamm1, 498251621566649026)
   \<and> virtualBase vamm1 * virtualQuote vamm1 \<noteq> k vamm1
   \<and> Decimal_mulD (virtualBase vamm1) (virtualQuote vamm1) \<noteq> Inr (k vamm1)"
  using swap_vamm0 vamm1_raw_product by (simp add: vamm1_mulD_product k_vamm1)

text \<open>
  C1, amended. After every successful sequence of \<open>swap\<close> calls (either direction, any
  amounts, no \<open>adjustReserves\<close>) the stored \<open>k\<close> is what it was, and after at least one
  swap the reserves are the truncated quotient of the curve: the reserve that was
  recomputed is \<open>floor (k * 1e18 / other)\<close>, so
  \<open>base * quote \<le> k * 1e18 < base * quote + max base quote\<close>. Every prefix of a
  successful sequence is a successful sequence, so this holds after each swap.
\<close>

theorem swaps_keep_k_floor_product:
  assumes "swaps s sender cs = Inr s'"
  shows "k s' = k s
       \<and> (cs \<noteq> [] \<longrightarrow>
            virtualBase s' * virtualQuote s' \<le> k s * UNIT
          \<and> k s * UNIT
              < virtualBase s' * virtualQuote s' + max (virtualBase s') (virtualQuote s'))"
  using assms
proof (induction cs arbitrary: s)
  case Nil
  then show ?case by simp
next
  case (Cons c cs)
  obtain isLong amountIn minAmountOut where c: "c = (isLong, amountIn, minAmountOut)"
    by (cases c) auto
  from Cons.prems c obtain s1 out where
    st: "swap s sender isLong amountIn minAmountOut = Inr (s1, out)" and
    rest: "swaps s1 sender cs = Inr s'"
    by (auto simp: and_then_Inr_iff)
  note one = swap_step [OF st]
  show ?case
  proof (cases cs)
    case Nil
    with rest have "s' = s1" by simp
    with one show ?thesis by simp
  next
    case (Cons d ds)
    with Cons.IH [OF rest] one show ?thesis by simp
  qed
qed

theorem swaps_keep_k_floor_product_witness:
  "swaps vamm0 202 [(True, 1000000000000000000000, 0), (False, 1000000000000000000, 0)]
     = Inr vamm2
   \<and> k vamm2 = k vamm0
   \<and> virtualBase vamm2 * virtualQuote vamm2 \<le> k vamm0 * UNIT
   \<and> k vamm0 * UNIT
       < virtualBase vamm2 * virtualQuote vamm2 + max (virtualBase vamm2) (virtualQuote vamm2)"
  using swaps_keep_k_floor_product [OF swaps_vamm0] swaps_vamm0 by simp

text \<open>
  C10. For \<open>amountIn = 0\<close> the quote and the swap disagree: \<open>getAmountOut\<close> returns 0 in
  every state and direction, while \<open>swap\<close> reverts for every caller, state and
  \<open>minAmountOut\<close> (with "Amount must be positive" once the two modifiers have passed), so
  the reserves after the call are the reserves before it.
\<close>

theorem getAmountOut_zero_swap_zero_reverts:
  "getAmountOut s isLong 0 = Inr 0
   \<and> swap s sender isLong 0 minAmountOut =
       Inl (if sender = vamm_clearingHouse s
            then (if isPaused s then TradingPaused else AmountMustBePositive)
            else OnlyClearingHouse)
   \<and> storage_after s (swap s sender isLong 0 minAmountOut) = s"
  by (simp add: getAmountOut_def swap_def storage_after_def)

section \<open>Funding\<close>


lemma chk_Inr_iff: "chk x = Inr y \<longleftrightarrow> - (2 ^ 255) \<le> x \<and> x < 2 ^ 255 \<and> y = x"
  by (auto simp: chk_def)

lemma chk_Inl_iff: "chk x = Inl e \<longleftrightarrow> \<not> (- (2 ^ 255) \<le> x \<and> x < 2 ^ 255) \<and> e = Panic"
  by (auto simp: chk_def)

lemma uadd_Inl_iff: "uadd a b = Inl e \<longleftrightarrow> \<not> a + b < 2 ^ 256 \<and> e = Panic"
  by (auto simp: uadd_def)

lemma sdiv_Inr_iff:
  "sdiv a b = Inr c \<longleftrightarrow> b \<noteq> 0 \<and> - (2 ^ 255) \<le> tdiv a b \<and> tdiv a b < 2 ^ 255 \<and> c = tdiv a b"
  by (auto simp: sdiv_def chk_Inr_iff)

lemma sdiv_Inl_iff:
  "sdiv a b = Inl e \<longleftrightarrow> (b = 0 \<or> \<not> (- (2 ^ 255) \<le> tdiv a b \<and> tdiv a b < 2 ^ 255)) \<and> e = Panic"
  by (auto simp: sdiv_def chk_Inl_iff)

lemmas signed_Inr_iff = sadd_def ssub_def smul_def sneg_def chk_Inr_iff sdiv_Inr_iff
lemmas signed_Inl_iff = sadd_def ssub_def smul_def sneg_def chk_Inl_iff sdiv_Inl_iff

lemma to_int256_small: "n < 2 ^ 255 \<Longrightarrow> to_int256 n = int n"
  by (simp add: to_int256_def)

lemma to_int256_BASIS_POINTS: "to_int256 BASIS_POINTS = 10000"
  by (simp add: to_int256_def BASIS_POINTS_def)

lemma to_int256_ONE_DAY: "to_int256 ONE_DAY = 86400"
  by (simp add: to_int256_def ONE_DAY_def)

lemma chk_abs: "\<bar>x\<bar> \<le> b \<Longrightarrow> b < 2 ^ 255 \<Longrightarrow> chk x = Inr x"
  unfolding chk_def by (simp add: abs_le_iff)

lemma abs_tdiv_le: "\<bar>tdiv a b\<bar> \<le> \<bar>a\<bar>"
proof -
  have nn: "0 \<le> \<bar>a\<bar> div \<bar>b\<bar>"
    by (simp add: div_int_pos_iff)
  have le: "\<bar>a\<bar> div \<bar>b\<bar> \<le> \<bar>a\<bar>"
  proof (cases "a = 0")
    case True
    then show ?thesis by simp
  next
    case False
    then have "0 < \<bar>a\<bar>" by simp
    then show ?thesis by (rule int_div_le_self)
  qed
  have "\<bar>tdiv a b\<bar> = \<bar>sgn a\<bar> * \<bar>sgn b\<bar> * (\<bar>a\<bar> div \<bar>b\<bar>)"
    using nn by (simp add: tdiv_def abs_mult)
  also have "\<dots> \<le> 1 * 1 * (\<bar>a\<bar> div \<bar>b\<bar>)"
    using nn by (intro mult_right_mono mult_mono) (simp_all add: abs_sgn_eq)
  finally show ?thesis using le by simp
qed

lemma updateFundingRate_succeeds:
  assumes "sender = f_clearingHouse s"
      and "timestamp (fundingGrowth s tok) + fundingPeriod s < 2 ^ 256"
      and "timestamp (fundingGrowth s tok) + fundingPeriod s \<le> now"
      and "indexPrice \<noteq> 0"
      and "\<bar>markPrice\<bar> \<le> 2 ^ 200" and "\<bar>indexPrice\<bar> \<le> 2 ^ 200"
      and "fundingPeriod s \<le> 2 ^ 32"
      and "maxFundingRate s \<le> BASIS_POINTS"
      and "\<bar>cumulativeFunding (fundingGrowth s tok)\<bar> \<le> 2 ^ 254"
  shows "\<exists>s' r. updateFundingRate s sender now tok markPrice indexPrice loi soi = Inr (s', r)"
proof -
  define d where "d = markPrice - indexPrice"
  define premium where "premium = tdiv (d * 10000) indexPrice"
  define m where "m = premium * int (fundingPeriod s)"
  define rate0 where "rate0 = tdiv m 86400"
  define M where "M = int (maxFundingRate s)"
  have Mr: "to_int256 (maxFundingRate s) = M" and M0: "0 \<le> M" and M1: "M \<le> 10000"
    using assms(8) by (simp_all add: to_int256_def BASIS_POINTS_def M_def)
  have P: "to_int256 (fundingPeriod s) = int (fundingPeriod s)"
    using assms(7) by (simp add: to_int256_def)
  have d: "\<bar>d\<bar> \<le> 2 ^ 201" using assms(5,6) by (simp add: d_def)
  then have n: "\<bar>d * 10000\<bar> \<le> 2 ^ 215" by (simp add: abs_mult)
  have premium: "\<bar>premium\<bar> \<le> 2 ^ 215"
    unfolding premium_def using abs_tdiv_le [of "d * 10000" indexPrice] n by linarith
  have "\<bar>m\<bar> = \<bar>premium\<bar> * int (fundingPeriod s)" by (simp add: m_def abs_mult)
  also have "\<dots> \<le> 2 ^ 215 * 2 ^ 32"
    using premium assms(7) by (intro mult_mono) simp_all
  finally have m: "\<bar>m\<bar> \<le> 2 ^ 247" by simp
  have rate0: "\<bar>rate0\<bar> \<le> 2 ^ 247"
    unfolding rate0_def using abs_tdiv_le [of m 86400] m by linarith
  have e1: "ssub markPrice indexPrice = Inr d"
    unfolding ssub_def d_def [symmetric] by (rule chk_abs [OF d]) simp
  have e2: "smul d 10000 = Inr (d * 10000)"
    unfolding smul_def by (rule chk_abs [OF n]) simp
  have e3: "sdiv (d * 10000) indexPrice = Inr premium"
    unfolding sdiv_def premium_def [symmetric] using assms(4) chk_abs [OF premium] by simp
  have e4: "smul premium (int (fundingPeriod s)) = Inr m"
    unfolding smul_def m_def [symmetric] by (rule chk_abs [OF m]) simp
  have e5: "sdiv m 86400 = Inr rate0"
    unfolding sdiv_def rate0_def [symmetric] using chk_abs [OF rate0] by simp
  have e6: "sneg M = Inr (- M)"
    unfolding sneg_def by (rule chk_abs [of _ 10000]) (use M0 M1 in simp_all)
  have e7: "sneg r = Inr (- r)" if "\<bar>r\<bar> \<le> 10000" for r
    unfolding sneg_def by (rule chk_abs [of _ 10000]) (use that in simp_all)
  have e8: "sadd (cumulativeFunding (fundingGrowth s tok)) r
              = Inr (cumulativeFunding (fundingGrowth s tok) + r)" if "\<bar>r\<bar> \<le> 10000" for r
  proof -
    have "\<bar>cumulativeFunding (fundingGrowth s tok) + r\<bar> \<le> 2 ^ 254 + 10000"
      using that assms(9) by linarith
    then show ?thesis
      unfolding sadd_def by (rule chk_abs) simp
  qed
  have e0: "uadd (timestamp (fundingGrowth s tok)) (fundingPeriod s)
              = Inr (timestamp (fundingGrowth s tok) + fundingPeriod s)"
    using assms(2) by (simp add: uadd_def)
  show ?thesis
    using assms(1,3) M0 M1
    by (simp add: updateFundingRate_def Let_def e0 e1 e2 e3 e4 e5 e6 e7 e8
        SignedDecimal_add_def SignedDecimal_s256_def Mr P
        to_int256_BASIS_POINTS to_int256_ONE_DAY)
qed

text \<open>The rate before the cap and the capped rate, as the source computes them.\<close>

lemma updateFundingRate_too_early:
  assumes "sender = f_clearingHouse s"
      and "timestamp (fundingGrowth s tok) + fundingPeriod s < 2 ^ 256"
  shows "updateFundingRate s sender now tok markPrice indexPrice loi soi = Inl TooEarly
         \<longleftrightarrow> now < timestamp (fundingGrowth s tok) + fundingPeriod s"
  using assms
  by (auto simp: updateFundingRate_def Let_def uadd_def and_then_Inl_iff require_Inl_iff
      require_Inr_iff signed_Inl_iff SignedDecimal_add_def)

lemma updateFundingRate_result:
  assumes "updateFundingRate s sender now tok markPrice indexPrice loi soi = Inr (s', r)"
      and "fundingPeriod s < 2 ^ 255"
      and "maxFundingRate s \<le> BASIS_POINTS"
  shows "r = max (- int (maxFundingRate s)) (min (int (maxFundingRate s))
               (tdiv (tdiv ((markPrice - indexPrice) * 10000) indexPrice * int (fundingPeriod s)) 86400))
       \<and> cumulativeFunding (fundingGrowth s' tok) = cumulativeFunding (fundingGrowth s tok) + r
       \<and> timestamp (fundingGrowth s' tok) = now
       \<and> longFundingRate (fundingGrowth s' tok) = r
       \<and> shortFundingRate (fundingGrowth s' tok) = - r
       \<and> (\<forall>tok'. tok' \<noteq> tok \<longrightarrow> fundingGrowth s' tok' = fundingGrowth s tok')
       \<and> fundingPeriod s' = fundingPeriod s \<and> maxFundingRate s' = maxFundingRate s
       \<and> timestamp (fundingGrowth s tok) + fundingPeriod s \<le> now"
proof -
  have M: "to_int256 (maxFundingRate s) = int (maxFundingRate s)"
    using assms(3) by (simp add: to_int256_def BASIS_POINTS_def)
  have P: "to_int256 (fundingPeriod s) = int (fundingPeriod s)"
    using assms(2) by (simp add: to_int256_def)
  show ?thesis
    using assms(1)
    by (auto simp: updateFundingRate_def Let_def and_then_Inr_iff require_Inr_iff uadd_Inr_iff
        signed_Inr_iff SignedDecimal_add_def SignedDecimal_s256_def M P
        to_int256_BASIS_POINTS to_int256_ONE_DAY)
qed


lemma settleFunding_keeps_growth:
  "settleFunding s caller trader tok positionSize = Inr (s', owed) \<Longrightarrow> fundingGrowth s' = fundingGrowth s"
  by (auto simp: settleFunding_def Let_def and_then_Inr_iff)

lemma setFundingPeriod_keeps_growth:
  "setFundingPeriod s caller period = Inr s' \<Longrightarrow> fundingGrowth s' = fundingGrowth s"
  by (auto simp: setFundingPeriod_def and_then_Inr_iff)

lemma setMaxFundingRate_keeps_growth:
  "setMaxFundingRate s caller rate = Inr s' \<Longrightarrow> fundingGrowth s' = fundingGrowth s"
  by (auto simp: setMaxFundingRate_def and_then_Inr_iff)

lemma funding_exec_other_market:
  assumes "funding_exec s caller t c = Inr s2"
      and "\<forall>m i l sh. c \<noteq> UpdateFundingRate tk m i l sh"
  shows "cumulativeFunding (fundingGrowth s2 tk) = cumulativeFunding (fundingGrowth s tk)"
proof (cases c)
  case (UpdateFundingRate tok m i l sh)
  with assms(2) have ne: "tk \<noteq> tok" by auto
  from assms(1) UpdateFundingRate obtain r where
    "updateFundingRate s caller t tok m i l sh = Inr (s2, r)"
    by (auto simp: and_then_Inr_iff)
  then have "fundingGrowth s2 tk = fundingGrowth s tk"
    using ne
    by (auto simp: updateFundingRate_def Let_def and_then_Inr_iff)
  then show ?thesis by simp
next
  case (SettleFunding trader tok sz)
  with assms(1) show ?thesis
    by (auto simp: and_then_Inr_iff dest: settleFunding_keeps_growth)
next
  case (SetFundingPeriod p)
  with assms(1) show ?thesis by (auto dest: setFundingPeriod_keeps_growth)
next
  case (SetMaxFundingRate p)
  with assms(1) show ?thesis by (auto dest: setMaxFundingRate_keeps_growth)
qed

lemmas signed_eval = ssub_def smul_def sdiv_def sneg_def sadd_def chk_def tdiv_def to_int256_def

lemma updateFundingRate_funding0:
  "updateFundingRate funding0 202 28800 200 2100000000000000000000 2000000000000000000000 0 0
     = Inr (funding1, 166)"
  by (simp add: updateFundingRate_def funding0_def funding1_def Let_def uadd_def signed_eval
      SignedDecimal_add_def SignedDecimal_s256_def BASIS_POINTS_def ONE_DAY_def)

lemma updateFundingRate_overflow:
  assumes "sender = f_clearingHouse s"
      and "2 ^ 256 \<le> timestamp (fundingGrowth s tok) + fundingPeriod s"
  shows "updateFundingRate s sender now tok markPrice indexPrice loi soi = Inl Panic"
  using assms by (simp add: updateFundingRate_def Let_def uadd_def)

lemma updateFundingRate_too_early_iff:
  assumes "sender = f_clearingHouse s"
  shows "updateFundingRate s sender now tok markPrice indexPrice loi soi = Inl TooEarly
         \<longleftrightarrow> timestamp (fundingGrowth s tok) + fundingPeriod s < 2 ^ 256
             \<and> now < timestamp (fundingGrowth s tok) + fundingPeriod s"
proof (cases "timestamp (fundingGrowth s tok) + fundingPeriod s < 2 ^ 256")
  case True
  with updateFundingRate_too_early [OF assms True] show ?thesis by simp
next
  case False
  then have "2 ^ 256 \<le> timestamp (fundingGrowth s tok) + fundingPeriod s" by simp
  from updateFundingRate_overflow [OF assms this] False show ?thesis by simp
qed

lemma funding_exec_keeps_cap:
  assumes "funding_exec s caller t c = Inr s2" and "maxFundingRate s \<le> BASIS_POINTS"
  shows "maxFundingRate s2 \<le> BASIS_POINTS"
proof (cases c)
  case (UpdateFundingRate tok m i l sh)
  with assms show ?thesis
    by (auto simp: updateFundingRate_def Let_def and_then_Inr_iff)
next
  case (SettleFunding trader tok sz)
  with assms show ?thesis
    by (auto simp: settleFunding_def Let_def and_then_Inr_iff)
next
  case (SetFundingPeriod p)
  with assms show ?thesis by (auto simp: setFundingPeriod_def and_then_Inr_iff)
next
  case (SetMaxFundingRate p)
  with assms show ?thesis
    by (auto simp: setMaxFundingRate_def and_then_Inr_iff require_Inr_iff)
qed

lemma setFundingPeriod_funding1:
  "setFundingPeriod funding1 100
     115792089237316195423570985008687907853269984665640564039457584007913129639935
     = Inr funding2"
  by (simp add: setFundingPeriod_def funding1_def funding0_def funding2_def)

lemma funding2_fields:
  "f_clearingHouse funding2 = 202"
  "timestamp (fundingGrowth funding2 200) = 28800"
  "fundingPeriod funding2
     = 115792089237316195423570985008687907853269984665640564039457584007913129639935"
  by (simp_all add: funding2_def funding1_def funding0_def)

lemma updateFundingRate_funding2:
  "updateFundingRate funding2 202 28801 200 2100000000000000000000 2000000000000000000000 0 0
     = Inl Panic"
  by (simp add: updateFundingRate_def Let_def uadd_def funding2_fields)

text \<open>
  C9, as stated, fails. The Funding contract is deployed, updated once at time 28800,
  and its admin sets the funding period to \<open>2 ^ 256 - 1\<close> (\<open>setFundingPeriod\<close> only
  requires a positive period). At time 28801 the ClearingHouse calls
  \<open>updateFundingRate\<close>: \<open>timeNow < lastSettlement + fundingPeriod\<close>, and the call fails
  with an arithmetic Panic, the checked sum overflowing, not with "Too early".
\<close>

theorem updateFundingRate_overflow_not_TooEarly_counterexample:
  "updateFundingRate funding0 202 28800 200 2100000000000000000000 2000000000000000000000 0 0
     = Inr (funding1, 166)
   \<and> setFundingPeriod funding1 100
       115792089237316195423570985008687907853269984665640564039457584007913129639935
       = Inr funding2
   \<and> (28801::nat) < timestamp (fundingGrowth funding2 200) + fundingPeriod funding2
   \<and> updateFundingRate funding2 202 28801 200 2100000000000000000000 2000000000000000000000 0 0
       = Inl Panic"
  by (simp add: updateFundingRate_funding0 setFundingPeriod_funding1 funding2_fields
      updateFundingRate_funding2)

text \<open>
  C9, amended. For a call of \<open>updateFundingRate\<close> by the ClearingHouse (the function's
  access gate): it fails with "Too early" exactly when \<open>lastSettlement + fundingPeriod\<close>
  is a \<open>uint256\<close> and \<open>now\<close> is below it, and with a Panic when the sum overflows. When
  it returns, with the period below \<open>2 ^ 255\<close> and the cap at most 10000 (which
  \<open>setMaxFundingRate\<close> enforces and every call keeps), the returned rate is
  \<open>(markPrice - indexPrice) * 10000 / indexPrice * fundingPeriod / 1 day\<close> (Solidity's
  truncating division) clamped to \<open>[- maxFundingRate, maxFundingRate]\<close>, the market's
  cumulative index has grown by exactly that rate, and its timestamp is \<open>now\<close>. It does
  return when it is not too early, the index price is not zero and the prices, the period
  and the index are far from the limits of \<open>int256\<close>. No other call of the contract
  (\<open>settleFunding\<close>, \<open>setFundingPeriod\<close>, \<open>setMaxFundingRate\<close>, an update of another
  market) changes the market's cumulative index.
\<close>

theorem updateFundingRate_effect:
  assumes "sender = f_clearingHouse s"
  shows "(updateFundingRate s sender now tok markPrice indexPrice loi soi = Inl TooEarly
            \<longleftrightarrow> timestamp (fundingGrowth s tok) + fundingPeriod s < 2 ^ 256
                \<and> now < timestamp (fundingGrowth s tok) + fundingPeriod s)
       \<and> (2 ^ 256 \<le> timestamp (fundingGrowth s tok) + fundingPeriod s \<longrightarrow>
            updateFundingRate s sender now tok markPrice indexPrice loi soi = Inl Panic)
       \<and> (updateFundingRate s sender now tok markPrice indexPrice loi soi = Inr (s', r)
            \<and> fundingPeriod s < 2 ^ 255 \<and> maxFundingRate s \<le> BASIS_POINTS \<longrightarrow>
            r = max (- int (maxFundingRate s)) (min (int (maxFundingRate s))
                  (tdiv (tdiv ((markPrice - indexPrice) * 10000) indexPrice
                           * int (fundingPeriod s)) 86400))
          \<and> cumulativeFunding (fundingGrowth s' tok) = cumulativeFunding (fundingGrowth s tok) + r
          \<and> timestamp (fundingGrowth s' tok) = now
          \<and> longFundingRate (fundingGrowth s' tok) = r
          \<and> shortFundingRate (fundingGrowth s' tok) = - r)
       \<and> (timestamp (fundingGrowth s tok) + fundingPeriod s \<le> now \<and> now < 2 ^ 256
            \<and> indexPrice \<noteq> 0
            \<and> \<bar>markPrice\<bar> \<le> 2 ^ 200 \<and> \<bar>indexPrice\<bar> \<le> 2 ^ 200 \<and> fundingPeriod s \<le> 2 ^ 32
            \<and> maxFundingRate s \<le> BASIS_POINTS
            \<and> \<bar>cumulativeFunding (fundingGrowth s tok)\<bar> \<le> 2 ^ 254 \<longrightarrow>
            (\<exists>s1 r1. updateFundingRate s sender now tok markPrice indexPrice loi soi = Inr (s1, r1)))
       \<and> (funding_exec s caller t c = Inr s2 \<and> (\<forall>m i l sh. c \<noteq> UpdateFundingRate tk m i l sh) \<longrightarrow>
            cumulativeFunding (fundingGrowth s2 tk) = cumulativeFunding (fundingGrowth s tk))"
proof (intro conjI impI)
  show "updateFundingRate s sender now tok markPrice indexPrice loi soi = Inl TooEarly
            \<longleftrightarrow> timestamp (fundingGrowth s tok) + fundingPeriod s < 2 ^ 256
                \<and> now < timestamp (fundingGrowth s tok) + fundingPeriod s"
    by (rule updateFundingRate_too_early_iff [OF assms])
next
  assume "2 ^ 256 \<le> timestamp (fundingGrowth s tok) + fundingPeriod s"
  then show "updateFundingRate s sender now tok markPrice indexPrice loi soi = Inl Panic"
    by (rule updateFundingRate_overflow [OF assms])
next
  assume a: "updateFundingRate s sender now tok markPrice indexPrice loi soi = Inr (s', r)
            \<and> fundingPeriod s < 2 ^ 255 \<and> maxFundingRate s \<le> BASIS_POINTS"
  then have res: "r = max (- int (maxFundingRate s)) (min (int (maxFundingRate s))
                  (tdiv (tdiv ((markPrice - indexPrice) * 10000) indexPrice
                           * int (fundingPeriod s)) 86400))
          \<and> cumulativeFunding (fundingGrowth s' tok) = cumulativeFunding (fundingGrowth s tok) + r
          \<and> timestamp (fundingGrowth s' tok) = now
          \<and> longFundingRate (fundingGrowth s' tok) = r
          \<and> shortFundingRate (fundingGrowth s' tok) = - r"
    using updateFundingRate_result [of s sender now tok markPrice indexPrice loi soi s' r]
    by blast
  from res show "r = max (- int (maxFundingRate s)) (min (int (maxFundingRate s))
                  (tdiv (tdiv ((markPrice - indexPrice) * 10000) indexPrice
                           * int (fundingPeriod s)) 86400))" by simp
  from res show "cumulativeFunding (fundingGrowth s' tok) = cumulativeFunding (fundingGrowth s tok) + r"
    by simp
  from res show "timestamp (fundingGrowth s' tok) = now" by simp
  from res show "longFundingRate (fundingGrowth s' tok) = r" by simp
  from res show "shortFundingRate (fundingGrowth s' tok) = - r" by simp
next
  assume b: "timestamp (fundingGrowth s tok) + fundingPeriod s \<le> now \<and> now < 2 ^ 256
            \<and> indexPrice \<noteq> 0
            \<and> \<bar>markPrice\<bar> \<le> 2 ^ 200 \<and> \<bar>indexPrice\<bar> \<le> 2 ^ 200 \<and> fundingPeriod s \<le> 2 ^ 32
            \<and> maxFundingRate s \<le> BASIS_POINTS
            \<and> \<bar>cumulativeFunding (fundingGrowth s tok)\<bar> \<le> 2 ^ 254"
  then have "timestamp (fundingGrowth s tok) + fundingPeriod s < 2 ^ 256" by linarith
  with b show "\<exists>s1 r1. updateFundingRate s sender now tok markPrice indexPrice loi soi = Inr (s1, r1)"
    by (intro updateFundingRate_succeeds [OF assms]) simp_all
next
  assume "funding_exec s caller t c = Inr s2 \<and> (\<forall>m i l sh. c \<noteq> UpdateFundingRate tk m i l sh)"
  then show "cumulativeFunding (fundingGrowth s2 tk) = cumulativeFunding (fundingGrowth s tk)"
    using funding_exec_other_market by blast
qed

theorem updateFundingRate_effect_witness:
  "updateFundingRate funding0 202 28799 200 2100000000000000000000 2000000000000000000000 0 0
     = Inl TooEarly
   \<and> updateFundingRate funding0 202 28800 200 2100000000000000000000 2000000000000000000000 0 0
     = Inr (funding1, 166)
   \<and> max (- int (maxFundingRate funding0)) (min (int (maxFundingRate funding0))
        (tdiv (tdiv ((2100000000000000000000 - 2000000000000000000000) * 10000)
                 2000000000000000000000 * int (fundingPeriod funding0)) 86400)) = 166
   \<and> cumulativeFunding (fundingGrowth funding1 200)
       = cumulativeFunding (fundingGrowth funding0 200) + 166
   \<and> timestamp (fundingGrowth funding1 200) = 28800
   \<and> updateFundingRate funding2 202 28801 200 2100000000000000000000 2000000000000000000000 0 0
       = Inl Panic
   \<and> funding_exec funding0 100 28800 (SetFundingPeriod 1) = Inr (funding0\<lparr>fundingPeriod := 1\<rparr>)
   \<and> cumulativeFunding (fundingGrowth (funding0\<lparr>fundingPeriod := 1\<rparr>) 200)
       = cumulativeFunding (fundingGrowth funding0 200)"
proof -
  have h1: "202 = f_clearingHouse funding0" and h2: "202 = f_clearingHouse funding2"
    by (simp_all add: funding0_def funding2_fields)
  have due: "timestamp (fundingGrowth funding0 200) + fundingPeriod funding0 = 28800"
    and per: "fundingPeriod funding0 < 2 ^ 255"
    and cap: "maxFundingRate funding0 \<le> BASIS_POINTS"
    by (simp_all add: funding0_def BASIS_POINTS_def)
  have ex: "funding_exec funding0 100 28800 (SetFundingPeriod 1) = Inr (funding0\<lparr>fundingPeriod := 1\<rparr>)"
    by (simp add: setFundingPeriod_def funding0_def)
  note early = updateFundingRate_effect [OF h1, of 28799 200 2100000000000000000000
      2000000000000000000000 0 0 funding1 166 100 28800 "SetFundingPeriod 1"
      "funding0\<lparr>fundingPeriod := 1\<rparr>" 200]
  note ok = updateFundingRate_effect [OF h1, of 28800 200 2100000000000000000000
      2000000000000000000000 0 0 funding1 166 100 28800 "SetFundingPeriod 1"
      "funding0\<lparr>fundingPeriod := 1\<rparr>" 200]
  note over = updateFundingRate_effect [OF h2, of 28801 200 2100000000000000000000
      2000000000000000000000 0 0 funding1 166 100 28800 "SetFundingPeriod 1"
      "funding0\<lparr>fundingPeriod := 1\<rparr>" 200]
  from early have a: "updateFundingRate funding0 202 28799 200 2100000000000000000000
      2000000000000000000000 0 0 = Inl TooEarly"
    by (simp add: due)
  from over have b: "updateFundingRate funding2 202 28801 200 2100000000000000000000
      2000000000000000000000 0 0 = Inl Panic"
    by (simp add: funding2_fields)
  from ok updateFundingRate_funding0 ex a b per cap show ?thesis
    by simp
qed

section \<open>Clearing house\<close>

lemmas ch_eval = and_then_def require_def umul_def udiv_def uadd_def usub_def
  ssub_def sadd_def sneg_def chk_def to_int256_def to_uint256_def abs_size_def
  BASIS_POINTS_def UNIT_def Let_def

lemma ch0_deployed:
  "addMarket (ClearingHouse_constructor 0 201 203 0 100) 100 200 200 10000 = Inr ch0"
  by (simp add: addMarket_def ClearingHouse_constructor_def ch0_def)

lemma ch0_market:
  "markets ch0 200 = \<lparr>baseToken = 200, vamm = 200, isActive = True, maxLeverage = 10000,
             maintenanceMarginRatio = 50, liquidationFeeRatio = 500\<rparr>"
  by (simp add: ch0_def)

lemma ch0_position: "positions ch0 trader tok = empty_Position"
  by (simp add: ch0_def)

lemma ch1_market: "markets ch1 = markets ch0"
  by (simp add: ch1_def set_position_def)

lemma ch1_position: "positions ch1 101 200 = pos1"
  by (simp add: ch1_def set_position_def)

lemma ch2_position: "positions ch2 101 200 = pos2"
  by (simp add: ch2_def set_position_def)

lemma open_long_ch0:
  "openPosition ch0 101 10 200 True 100000000000000000000 1000 0 =
     Inr (ch1, 10000000000000000000,
          \<lparr>pc_trader = 101, pc_baseToken = 200, exchangedPositionSize = 10000000000000000000,
           exchangedPositionNotional = 10000000000000000000, pc_fee = 0, realizedPnl = 0\<rparr>)"
  by (simp add: openPosition_def ch0_market ch0_position ch1_def pos1_def empty_Position_def ch_eval)

lemma open_short_ch1:
  "openPosition ch1 101 20 200 False 100000000000000000000 1000 0 =
     Inr (ch2, 10000000000000000000,
          \<lparr>pc_trader = 101, pc_baseToken = 200, exchangedPositionSize = - 10000000000000000000,
           exchangedPositionNotional = 10000000000000000000, pc_fee = 0, realizedPnl = 0\<rparr>)"
  by (simp add: openPosition_def ch1_market ch0_market ch1_position ch2_def pos1_def pos2_def ch_eval)

lemma close_ch2: "closePosition ch2 101 30 200 10000 = Inl NoPosition"
  by (simp add: closePosition_def ch2_position pos2_def ch_eval)

lemma close_zero_ch1:
  "closePosition ch1 101 50 200 0 =
     Inr (set_position ch1 101 200 (pos1\<lparr>lastUpdated := 50\<rparr>), 0,
          \<lparr>pc_trader = 101, pc_baseToken = 200, exchangedPositionSize = 0,
           exchangedPositionNotional = 0, pc_fee = 0, realizedPnl = 0\<rparr>)"
  by (simp add: closePosition_def ch1_position pos1_def ch_eval)

lemma close_full_ch1:
  "closePosition ch1 101 50 200 10000 =
     Inr (set_position ch1 101 200 empty_Position, 0,
          \<lparr>pc_trader = 101, pc_baseToken = 200, exchangedPositionSize = - 10000000000000000000,
           exchangedPositionNotional = 10000000000000000000, pc_fee = 0, realizedPnl = 0\<rparr>)"
  by (simp add: closePosition_def ch1_position pos1_def ch_eval)

text \<open>
  C6, at its failing input. On the market of the test suite, trader 101 opens a long
  position (collateral \<open>100e18\<close>, leverage 1000) and then a short position with the same
  collateral and leverage. Both calls succeed; the second takes the branch "adding to
  existing position", which adds the signed sizes and the collaterals. The stored position
  then has size 0 and collateral \<open>200e18\<close>, and \<open>closePosition\<close> treats it as absent
  ("No position").
\<close>

theorem opposite_open_size_zero_collateral_left:
  "openPosition ch0 101 10 200 True 100000000000000000000 1000 0 =
     Inr (ch1, 10000000000000000000,
          \<lparr>pc_trader = 101, pc_baseToken = 200, exchangedPositionSize = 10000000000000000000,
           exchangedPositionNotional = 10000000000000000000, pc_fee = 0, realizedPnl = 0\<rparr>)
   \<and> openPosition ch1 101 20 200 False 100000000000000000000 1000 0 =
     Inr (ch2, 10000000000000000000,
          \<lparr>pc_trader = 101, pc_baseToken = 200, exchangedPositionSize = - 10000000000000000000,
           exchangedPositionNotional = 10000000000000000000, pc_fee = 0, realizedPnl = 0\<rparr>)
   \<and> psize (positions ch2 101 200) = 0
   \<and> collateral (positions ch2 101 200) = 200000000000000000000
   \<and> closePosition ch2 101 30 200 10000 = Inl NoPosition"
  by (simp add: open_long_ch0 open_short_ch1 close_ch2 ch2_position pos2_def)

text \<open>
  C8, at its failing input. Trader 101 holds the position of \<open>ch1\<close> and calls
  \<open>closePosition\<close> with \<open>closeRatio = 0\<close>: the call does not fail with "Invalid ratio",
  it returns a profit of 0, emits \<open>PositionChanged\<close> and rewrites the position with a new
  \<open>lastUpdated\<close>.
\<close>

theorem closePosition_ratio_zero_accepted:
  "psize (positions ch1 101 200) = 10000000000000000000
   \<and> closePosition ch1 101 50 200 0 =
     Inr (set_position ch1 101 200 (pos1\<lparr>lastUpdated := 50\<rparr>), 0,
          \<lparr>pc_trader = 101, pc_baseToken = 200, exchangedPositionSize = 0,
           exchangedPositionNotional = 0, pc_fee = 0, realizedPnl = 0\<rparr>)"
  by (simp add: close_zero_ch1 ch1_position pos1_def)


lemma abs_size_Inr_iff:
  "abs_size x = Inr a \<longleftrightarrow>
     (0 < x \<and> a = nat x) \<or> (x \<le> 0 \<and> - (2 ^ 255) < x \<and> a = nat (- x))"
  by (auto simp: abs_size_def and_then_Inr_iff sneg_def chk_Inr_iff to_uint256_def)

lemma set_position_same [simp]: "positions (set_position s trader tok p) trader tok = p"
  by (simp add: set_position_def)

lemma set_position_markets [simp]: "markets (set_position s trader tok p) = markets s"
  by (simp add: set_position_def)

lemma openPosition_Inr:
  assumes "openPosition s sender now tok isLong c l m = Inr (s', sz, ev)"
  shows "isActive (markets s tok) \<and> l \<le> maxLeverage (markets s tok)
       \<and> c * l < 2 ^ 256 \<and> sz = c * l div 10000 \<and> m \<le> sz
       \<and> exchangedPositionNotional ev = sz \<and> pc_fee ev = 0
       \<and> markets s' = markets s
       \<and> collateral (positions s' sender tok)
           = (if psize (positions s sender tok) = 0 then c
              else collateral (positions s sender tok) + c)
       \<and> openNotional (positions s' sender tok)
           = (if psize (positions s sender tok) = 0 then sz
              else openNotional (positions s sender tok) + sz)
       \<and> lastUpdated (positions s' sender tok) = now"
proof (cases "psize (positions s sender tok) = 0")
  case True
  with assms show ?thesis
    by (cases isLong)
       (auto simp: openPosition_def Let_def and_then_Inr_iff require_Inr_iff umul_Inr_iff
          udiv_Inr_iff BASIS_POINTS_def)
next
  case False
  with assms show ?thesis
    by (cases isLong)
       (auto simp: openPosition_def Let_def and_then_Inr_iff require_Inr_iff umul_Inr_iff
          udiv_Inr_iff uadd_Inr_iff BASIS_POINTS_def)
qed

lemma openPosition_fresh:
  assumes "openPosition s sender now tok isLong c l m = Inr (s', sz, ev)"
      and "psize (positions s sender tok) = 0"
  shows "sz \<noteq> 0 \<and> sz * UNIT < 2 ^ 256
       \<and> psize (positions s' sender tok)
           = (if isLong then to_int256 sz else - to_int256 sz)
       \<and> entryPrice (positions s' sender tok) = UNIT"
  using assms
  by (cases isLong)
     (auto simp: openPosition_def Let_def and_then_Inr_iff require_Inr_iff umul_Inr_iff
        udiv_Inr_iff sneg_def chk_Inr_iff BASIS_POINTS_def)

lemma closePosition_Inr:
  assumes "closePosition s sender now tok r = Inr (s', pnl, ev)"
  shows "psize (positions s sender tok) \<noteq> 0 \<and> r \<le> 10000
       \<and> pnl = 0 \<and> pc_fee ev = 0 \<and> realizedPnl ev = 0
       \<and> markets s' = markets s
       \<and> (r = 10000 \<longrightarrow> positions s' sender tok = empty_Position)
       \<and> (r < 10000 \<longrightarrow>
            collateral (positions s' sender tok)
              = collateral (positions s sender tok) * (10000 - r) div 10000
          \<and> openNotional (positions s' sender tok)
              = openNotional (positions s sender tok) * (10000 - r) div 10000)"
proof (cases "r = 10000")
  case True
  with assms show ?thesis
    by (cases "0 < psize (positions s sender tok)")
       (auto simp: closePosition_def Let_def and_then_Inr_iff require_Inr_iff umul_Inr_iff
          udiv_Inr_iff ssub_def chk_Inr_iff BASIS_POINTS_def)
next
  case False
  with assms show ?thesis
    by (cases "0 < psize (positions s sender tok)")
       (auto simp: closePosition_def Let_def and_then_Inr_iff require_Inr_iff umul_Inr_iff
          udiv_Inr_iff usub_Inr_iff ssub_def sadd_def chk_Inr_iff BASIS_POINTS_def)
qed


lemma swap_deducts_tradingFee:
  assumes "swap s sender isLong amountIn minAmountOut = Inr (s', out)"
  shows "\<exists>fee. tradingFee amountIn = Inr fee \<and> fee \<le> amountIn
           \<and> (if isLong then virtualQuote s' = virtualQuote s + (amountIn - fee)
               else virtualBase s' = virtualBase s + (amountIn - fee))"
  using assms
  by (cases isLong)
     (auto simp: swap_def curve_def tradingFee_def Let_def and_then_Inr_iff require_Inr_iff
        Decimal_mul_def Decimal_div_def Decimal_sub_def Decimal_add_def Decimal_d256_def
        umul_Inr_iff udiv_Inr_iff usub_Inr_iff uadd_Inr_iff)






lemma world0_fields:
  "clearingHouse world0 = ch0" "accountBalance world0 = ab0" "vamms world0 200 = vamm0"
  by (simp_all add: world0_def)

lemma world1_fields:
  "clearingHouse world1 = ch1" "accountBalance world1 = ab0" "vamms world1 = vamms world0"
  by (simp_all add: world1_def world0_def)

lemma tx_open_world0:
  "tx_openPosition world0 101 10 200 True 100000000000000000000 1000 0 =
     Inr (world1, 10000000000000000000,
          \<lparr>pc_trader = 101, pc_baseToken = 200, exchangedPositionSize = 10000000000000000000,
           exchangedPositionNotional = 10000000000000000000, pc_fee = 0, realizedPnl = 0\<rparr>)"
  by (simp add: tx_openPosition_def world0_fields open_long_ch0 world1_def)

lemma getAmountOut_vamm0:
  "getAmountOut vamm0 True 10000000000000000000 = Inr 4984975149898878"
  by (simp add: getAmountOut_def vamm_eval vamm0_def)

lemma swap_out_vamm0:
  "and_then (swap vamm0 202 True 10000000000000000000 0) (\<lambda>(s', out). Inr out)
     = Inr 4984975149898878"
  by (simp add: vamm_eval vamm0_def)

lemma ab0_balance: "ab_collateral ab0 101 = 50000000000000000000"
  by (simp add: ab0_def)

text \<open>
  C2, as stated, fails. On the test deployment, trader 101 holds a free balance of
  \<open>50e18\<close> in the AccountBalance and opens a long position with collateral \<open>100e18\<close>
  and leverage 1000. The call succeeds with notional \<open>10e18\<close> and returns \<open>10e18\<close> as the
  size, while the vAMM's swap of \<open>10e18\<close> (fee deducted first) would give
  \<open>4984975149898878\<close>; the vAMM is not touched and the free balance is still \<open>50e18\<close>.
\<close>

theorem openPosition_no_swap_no_debit_counterexample:
  "tx_openPosition world0 101 10 200 True 100000000000000000000 1000 0 =
     Inr (world1, 10000000000000000000,
          \<lparr>pc_trader = 101, pc_baseToken = 200, exchangedPositionSize = 10000000000000000000,
           exchangedPositionNotional = 10000000000000000000, pc_fee = 0, realizedPnl = 0\<rparr>)
   \<and> getAmountOut (vamms world0 200) True 10000000000000000000 = Inr 4984975149898878
   \<and> and_then (swap (vamms world0 200) 202 True 10000000000000000000 0) (\<lambda>(s', out). Inr out)
       = Inr 4984975149898878
   \<and> vamms world1 = vamms world0
   \<and> ab_collateral (accountBalance world0) 101 = 50000000000000000000
   \<and> ab_collateral (accountBalance world1) 101 = 50000000000000000000"
  by (simp add: tx_open_world0 world0_fields world1_fields getAmountOut_vamm0 swap_out_vamm0
      ab0_balance)

lemma openPosition_size:
  assumes "openPosition s sender now tok isLong c l m = Inr (s', sz, ev)"
  shows "exchangedPositionSize ev = (if isLong then int sz else - int sz)
       \<and> psize (positions s' sender tok)
           = psize (positions s sender tok) + (if isLong then int sz else - int sz)"
proof -
  from openPosition_Inr [OF assms] have cl: "c * l < 2 ^ 256" and sz: "sz = c * l div 10000"
    by simp_all
  from cl have "c * l \<le> 2 ^ 256 - 1" by simp
  then have "c * l div 10000 \<le> (2 ^ 256 - 1) div 10000" by (rule div_le_mono)
  then have "c * l div 10000 < 2 ^ 255" by simp
  then have i: "to_int256 (c * l div 10000) = int (c * l div 10000)"
    by (simp add: to_int256_def)
  show ?thesis
  proof (cases "psize (positions s sender tok) = 0")
    case True
    with assms show ?thesis
      by (cases isLong)
         (auto simp: openPosition_def Let_def and_then_Inr_iff require_Inr_iff umul_Inr_iff
            udiv_Inr_iff sneg_def chk_Inr_iff i BASIS_POINTS_def)
  next
    case False
    with assms show ?thesis
      by (cases isLong)
         (auto simp: openPosition_def Let_def and_then_Inr_iff require_Inr_iff umul_Inr_iff
            udiv_Inr_iff uadd_Inr_iff sneg_def sadd_def chk_Inr_iff i BASIS_POINTS_def)
  qed
qed

text \<open>
  C2, amended. Every successful \<open>openPosition\<close> is on an active market with
  \<open>leverage \<le> maxLeverage\<close>. Its notional is \<open>collateralAmount * leverage / 10000\<close>,
  reported in the event and recorded in the position (added to the open notional of an
  existing position). The returned position size is that notional itself, one to one: no
  vAMM is called and the storage of every vAMM is unchanged; the stored signed size grows
  by it for a long and shrinks by it for a short. \<open>collateralAmount\<close> is recorded as the
  position's collateral (added to the collateral of an existing position), and the
  AccountBalance, with every free collateral balance, is unchanged.
\<close>

theorem openPosition_effect:
  assumes "tx_openPosition w sender now tok isLong c l m = Inr (w', sz, ev)"
  shows "isActive (markets (clearingHouse w) tok)
       \<and> l \<le> maxLeverage (markets (clearingHouse w) tok)
       \<and> exchangedPositionNotional ev = c * l div 10000
       \<and> sz = c * l div 10000
       \<and> exchangedPositionSize ev = (if isLong then int sz else - int sz)
       \<and> psize (positions (clearingHouse w') sender tok)
           = psize (positions (clearingHouse w) sender tok)
             + (if isLong then int sz else - int sz)
       \<and> openNotional (positions (clearingHouse w') sender tok)
           = (if psize (positions (clearingHouse w) sender tok) = 0 then c * l div 10000
              else openNotional (positions (clearingHouse w) sender tok) + c * l div 10000)
       \<and> collateral (positions (clearingHouse w') sender tok)
           = (if psize (positions (clearingHouse w) sender tok) = 0 then c
              else collateral (positions (clearingHouse w) sender tok) + c)
       \<and> accountBalance w' = accountBalance w
       \<and> vamms w' = vamms w"
proof -
  from assms obtain ch' where
    o: "openPosition (clearingHouse w) sender now tok isLong c l m = Inr (ch', sz, ev)" and
    w': "w' = w\<lparr>clearingHouse := ch'\<rparr>"
    by (auto simp: tx_openPosition_def and_then_Inr_iff)
  from openPosition_Inr [OF o] openPosition_size [OF o] w' show ?thesis by simp
qed

theorem openPosition_effect_witness:
  "tx_openPosition world0 101 10 200 True 100000000000000000000 1000 0 =
     Inr (world1, 10000000000000000000,
          \<lparr>pc_trader = 101, pc_baseToken = 200, exchangedPositionSize = 10000000000000000000,
           exchangedPositionNotional = 10000000000000000000, pc_fee = 0, realizedPnl = 0\<rparr>)
   \<and> isActive (markets (clearingHouse world0) 200)
   \<and> (10000000000000000000::nat) = 100000000000000000000 * 1000 div 10000
   \<and> psize (positions (clearingHouse world1) 101 200) = 10000000000000000000
   \<and> openNotional (positions (clearingHouse world1) 101 200) = 100000000000000000000 * 1000 div 10000
   \<and> collateral (positions (clearingHouse world1) 101 200) = 100000000000000000000
   \<and> accountBalance world1 = accountBalance world0
   \<and> vamms world1 = vamms world0"
  using openPosition_effect [OF tx_open_world0] tx_open_world0
  by (simp add: world0_fields ch0_position empty_Position_def)

lemma tx_close_full_world1:
  "tx_closePosition world1 101 50 200 10000 =
     Inr (world2, 0,
          \<lparr>pc_trader = 101, pc_baseToken = 200, exchangedPositionSize = - 10000000000000000000,
           exchangedPositionNotional = 10000000000000000000, pc_fee = 0, realizedPnl = 0\<rparr>)"
  by (simp add: tx_closePosition_def world1_fields close_full_ch1 world1_def world2_def)

lemma close_quarter_ch1:
  "closePosition ch1 101 50 200 2500 =
     Inr (set_position ch1 101 200 pos3, 0,
          \<lparr>pc_trader = 101, pc_baseToken = 200, exchangedPositionSize = - 2500000000000000000,
           exchangedPositionNotional = 2500000000000000000, pc_fee = 0, realizedPnl = 0\<rparr>)"
  by (simp add: closePosition_def ch1_position pos1_def pos3_def ch_eval)

lemma tx_close_quarter_world1:
  "tx_closePosition world1 101 50 200 2500 =
     Inr (world3, 0,
          \<lparr>pc_trader = 101, pc_baseToken = 200, exchangedPositionSize = - 2500000000000000000,
           exchangedPositionNotional = 2500000000000000000, pc_fee = 0, realizedPnl = 0\<rparr>)"
  by (simp add: tx_closePosition_def world1_fields close_quarter_ch1 world1_def world3_def)

lemma world2_fields:
  "positions (clearingHouse world2) 101 200 = empty_Position" "accountBalance world2 = ab0"
  by (simp_all add: world2_def world0_def)

lemma world3_fields:
  "positions (clearingHouse world3) 101 200 = pos3" "accountBalance world3 = ab0"
  by (simp_all add: world3_def world0_def)

text \<open>
  C3, as stated, fails. Trader 101 holds the position of \<open>ch1\<close> with collateral
  \<open>100e18\<close> and closes it in full: the position is deleted, and the trader's free
  collateral balance in the AccountBalance is \<open>50e18\<close> before and after.
\<close>

theorem closePosition_full_no_refund_counterexample:
  "collateral (positions (clearingHouse world1) 101 200) = 100000000000000000000
   \<and> tx_closePosition world1 101 50 200 10000 =
       Inr (world2, 0,
          \<lparr>pc_trader = 101, pc_baseToken = 200, exchangedPositionSize = - 10000000000000000000,
           exchangedPositionNotional = 10000000000000000000, pc_fee = 0, realizedPnl = 0\<rparr>)
   \<and> ab_collateral (accountBalance world1) 101 = 50000000000000000000
   \<and> ab_collateral (accountBalance world2) 101 = 50000000000000000000"
  by (simp add: tx_close_full_world1 world1_fields world2_fields ch1_position pos1_def ab0_balance)

text \<open>
  C3, amended. Every successful \<open>closePosition\<close> is on an existing position. With
  \<open>closeRatio = 10000\<close> the position record is deleted: every field, the size and the
  collateral among them, is exactly zero. With \<open>0 < closeRatio < 10000\<close> the collateral
  and the open notional are scaled to \<open>x * (10000 - closeRatio) / 10000\<close>, rounded down. In
  both cases the AccountBalance is unchanged: no collateral is returned to the free
  balance.
\<close>

theorem closePosition_effect:
  assumes "tx_closePosition w sender now tok r = Inr (w', pnl, ev)"
  shows "psize (positions (clearingHouse w) sender tok) \<noteq> 0
       \<and> (r = 10000 \<longrightarrow>
            positions (clearingHouse w') sender tok = empty_Position
          \<and> psize (positions (clearingHouse w') sender tok) = 0
          \<and> collateral (positions (clearingHouse w') sender tok) = 0)
       \<and> (0 < r \<and> r < 10000 \<longrightarrow>
            collateral (positions (clearingHouse w') sender tok)
              = collateral (positions (clearingHouse w) sender tok) * (10000 - r) div 10000
          \<and> openNotional (positions (clearingHouse w') sender tok)
              = openNotional (positions (clearingHouse w) sender tok) * (10000 - r) div 10000)
       \<and> accountBalance w' = accountBalance w"
proof -
  from assms obtain ch' where
    o: "closePosition (clearingHouse w) sender now tok r = Inr (ch', pnl, ev)" and
    w': "w' = w\<lparr>clearingHouse := ch'\<rparr>"
    by (auto simp: tx_closePosition_def and_then_Inr_iff)
  from closePosition_Inr [OF o] w' show ?thesis by (simp add: empty_Position_def)
qed

theorem closePosition_effect_witness:
  "tx_closePosition world1 101 50 200 10000 =
       Inr (world2, 0,
          \<lparr>pc_trader = 101, pc_baseToken = 200, exchangedPositionSize = - 10000000000000000000,
           exchangedPositionNotional = 10000000000000000000, pc_fee = 0, realizedPnl = 0\<rparr>)
   \<and> positions (clearingHouse world2) 101 200 = empty_Position
   \<and> tx_closePosition world1 101 50 200 2500 =
     Inr (world3, 0,
          \<lparr>pc_trader = 101, pc_baseToken = 200, exchangedPositionSize = - 2500000000000000000,
           exchangedPositionNotional = 2500000000000000000, pc_fee = 0, realizedPnl = 0\<rparr>)
   \<and> collateral (positions (clearingHouse world3) 101 200)
       = collateral (positions (clearingHouse world1) 101 200) * (10000 - 2500) div 10000
   \<and> openNotional (positions (clearingHouse world3) 101 200)
       = openNotional (positions (clearingHouse world1) 101 200) * (10000 - 2500) div 10000
   \<and> accountBalance world3 = accountBalance world1"
  using closePosition_effect [OF tx_close_full_world1] closePosition_effect [OF tx_close_quarter_world1]
    tx_close_full_world1 tx_close_quarter_world1
  by simp

section \<open>Liquidation and withdrawal\<close>

lemma umul_Inl_iff: "umul a b = Inl e \<longleftrightarrow> \<not> a * b < 2 ^ 256 \<and> e = Panic"
  by (auto simp: umul_def)

lemma udiv_Inl_iff: "udiv a b = Inl e \<longleftrightarrow> b = 0 \<and> e = Panic"
  by (auto simp: udiv_def)

lemma abs_size_Inl: "abs_size x = Inl e \<Longrightarrow> e = Panic"
  by (auto simp: abs_size_def and_then_Inl_iff sneg_def chk_def split: if_splits)

lemma positionMarginRatio_Inl: "positionMarginRatio p = Inl e \<Longrightarrow> e = Panic"
  by (auto simp: positionMarginRatio_def and_then_Inl_iff umul_Inl_iff udiv_Inl_iff
      dest: abs_size_Inl)

lemma liquidate_NotLiquidatable_iff:
  "liquidate s sender trader tok = Inl NotLiquidatable \<longleftrightarrow>
     psize (positions s trader tok) \<noteq> 0
     \<and> (\<exists>v r. positionMarginRatio (positions s trader tok) = Inr (v, r)
              \<and> maintenanceMarginRatio (markets s tok) \<le> r)"
proof (cases "positionMarginRatio (positions s trader tok)")
  case (Inl e)
  with positionMarginRatio_Inl [OF Inl] show ?thesis
    by (simp add: liquidate_def Let_def and_then_Inl_iff require_Inl_iff require_Inr_iff)
next
  case (Inr vr)
  obtain v r where vr: "vr = (v, r)" by (cases vr)
  with Inr show ?thesis
    by (auto simp: liquidate_def Let_def and_then_Inl_iff require_Inl_iff require_Inr_iff
        umul_Inl_iff udiv_Inl_iff and_then_Inr_iff)
qed

lemma liquidate_Inr:
  assumes "liquidate s sender trader tok = Inr (s', ev)"
  shows "psize (positions s trader tok) \<noteq> 0
       \<and> (\<exists>v r. positionMarginRatio (positions s trader tok) = Inr (v, r)
              \<and> r < maintenanceMarginRatio (markets s tok))
       \<and> positions s' trader tok = empty_Position"
  using assms
  by (auto simp: liquidate_def Let_def and_then_Inr_iff require_Inr_iff)

lemma getMarginRatio_zero: "getMarginRatio s trader = Inr 0"
  by (simp add: getMarginRatio_def Let_def Decimal_zero_def Decimal_isZero_def)

lemma isLiquidatable_False: "isLiquidatable s trader = Inr False"
  by (simp add: isLiquidatable_def getMarginRatio_zero)

lemma ratio_at: "positionMarginRatio pos_at = Inr (10000, 50)"
  by (simp add: positionMarginRatio_def pos_at_def ch_eval)

lemma ratio_below: "positionMarginRatio pos_below = Inr (10000, 49)"
  by (simp add: positionMarginRatio_def pos_at_def pos_below_def ch_eval)

lemma ch_at_fields:
  "positions ch_at 101 200 = pos_at" "markets ch_at 200 = markets ch0 200"
  by (simp_all add: ch_at_def)

lemma ch_below_fields:
  "positions ch_below 101 200 = pos_below" "markets ch_below 200 = markets ch0 200"
  by (simp_all add: ch_below_def)

lemma liquidate_below:
  "liquidate ch_below 102 101 200 =
     Inr (set_position ch_below 101 200 empty_Position,
          \<lparr>pl_trader = 101, pl_baseToken = 200, positionNotional = 10000,
           liquidationFee = 2, liquidator = 102\<rparr>)"
proof -
  have c: "collateral pos_below = 49" "psize pos_below = 10000"
    by (simp_all add: pos_below_def pos_at_def)
  show ?thesis
    by (simp add: liquidate_def ch_below_fields ch0_market ratio_below c
        Let_def require_def umul_def udiv_def BASIS_POINTS_def)
qed

lemma getMarginRatio_marginRatioOver:
  "getMarginRatio s trader =
     (if Decimal_isZero Decimal_zero then Inr 0 else marginRatioOver s trader Decimal_zero)"
  by (simp add: getMarginRatio_def marginRatioOver_def Let_def)

lemma ch_hl0_deployed: "addMarket ch0 100 300 300 2000000 = Inr ch_hl0"
  by (simp add: addMarket_def ch0_def ch_hl0_def)

lemma ch_hl0_fields:
  "markets ch_hl0 300 = \<lparr>baseToken = 300, vamm = 300, isActive = True, maxLeverage = 2000000,
       maintenanceMarginRatio = 50, liquidationFeeRatio = 500\<rparr>"
  "positions ch_hl0 trader tok = empty_Position"
  by (simp_all add: ch_hl0_def ch0_def)

lemma open_hl:
  "openPosition ch_hl0 101 10 300 True 50000000000000000000 2000000 0 =
     Inr (ch_hl, 10000000000000000000000,
          \<lparr>pc_trader = 101, pc_baseToken = 300,
           exchangedPositionSize = 10000000000000000000000,
           exchangedPositionNotional = 10000000000000000000000, pc_fee = 0, realizedPnl = 0\<rparr>)"
  by (simp add: openPosition_def ch_hl0_fields ch_hl_def pos_hl_def empty_Position_def ch_eval)

lemma ch_hl_position: "positions ch_hl 101 300 = pos_hl"
  by (simp add: ch_hl_def)

lemma ratio_hl: "positionMarginRatio pos_hl = Inr (10000000000000000000000, 50)"
  by (simp add: positionMarginRatio_def pos_hl_def ch_eval)

lemma ab_hl_deposited: "deposit ab0 202 101 50000000000000000000 = Inr ab_hl"
  by (simp add: deposit_def ab0_def ab_hl_def Decimal_add_def uadd_def)

lemma ab_hl_fields:
  "ab_clearingHouse ab_hl = 202" "ab_collateral ab_hl 101 = 100000000000000000000"
  by (simp_all add: ab_hl_def ab0_def)

lemma ab_hl_after_balance: "ab_collateral ab_hl_after 101 = 0"
  by (simp add: ab_hl_after_def)

lemmas margin_eval = marginRatioOver_def getAccountValue_def Decimal_toSigned_def
  SignedDecimal_toUnsigned_def to_int256_def to_uint256_def umul_def udiv_def BASIS_POINTS_def
  Let_def

lemma marginRatioOver_hl:
  "marginRatioOver ab_hl 101 10000000000000000000000 = Inr 100"
  by (simp add: margin_eval ab_hl_fields)

lemma marginRatioOver_hl_after:
  "marginRatioOver ab_hl_after 101 10000000000000000000000 = Inr 0"
  by (simp add: margin_eval ab_hl_after_balance)

lemma withdraw_eq:
  "withdraw s sender trader amount =
     (if sender = ab_clearingHouse s
      then (if ab_collateral s trader < amount then Inl InsufficientCollateral
            else Inr (s\<lparr>ab_collateral :=
                         (ab_collateral s)(trader := ab_collateral s trader - amount)\<rparr>))
      else Inl OnlyClearingHouse)"
  by (simp add: withdraw_def canWithdraw_def Decimal_gte_def Decimal_sub_def usub_def)

lemma withdraw_hl: "withdraw ab_hl 202 101 100000000000000000000 = Inr ab_hl_after"
  by (simp add: withdraw_eq ab_hl_fields ab_hl_after_def)

lemma ab_low_balance: "ab_collateral ab_low 101 = 49"
  by (simp add: ab_low_def)

lemma marginRatioOver_low: "marginRatioOver ab_low 101 10000 = Inr 49"
  by (simp add: margin_eval ab_low_balance)

text \<open>
  C7, as stated, fails for \<open>isLiquidatable\<close>. Trader 101 holds the position
  \<open>pos_below\<close>, whose margin ratio is 49 basis points, strictly below the maintenance
  ratio of 50: \<open>liquidate\<close> succeeds on it. The trader's free balance is 49, so the
  account value over the position value, the ratio \<open>getMarginRatio\<close> is written to
  return, is 49 basis points as well. \<open>isLiquidatable\<close> returns false.
\<close>

theorem isLiquidatable_false_on_liquidatable_position_counterexample:
  "positionMarginRatio (positions ch_below 101 200) = Inr (10000, 49)
   \<and> maintenanceMarginRatio (markets ch_below 200) = 50
   \<and> liquidate ch_below 102 101 200 =
       Inr (set_position ch_below 101 200 empty_Position,
          \<lparr>pl_trader = 101, pl_baseToken = 200, positionNotional = 10000,
           liquidationFee = 2, liquidator = 102\<rparr>)
   \<and> marginRatioOver ab_low 101 10000 = Inr 49
   \<and> MAINTENANCE_MARGIN_RATIO = 50
   \<and> isLiquidatable ab_low 101 = Inr False"
  by (simp add: ch_below_fields ratio_below ch0_market liquidate_below marginRatioOver_low
      MAINTENANCE_MARGIN_RATIO_def isLiquidatable_False)

text \<open>
  C7, amended. \<open>liquidate\<close> fails with "Not liquidatable" exactly when the position
  exists, its margin ratio \<open>collateral * 10000 / (|size| * entryPrice / 1e18)\<close> can be
  computed and is greater than or equal to the market's maintenance margin ratio; when
  \<open>liquidate\<close> returns, the ratio was strictly below it and the position is deleted. The
  read-only \<open>isLiquidatable\<close> returns false for every trader in every state: the margin
  ratio it reads from \<open>getMarginRatio\<close> is always 0, and its test is
  \<open>ratio < MAINTENANCE_MARGIN_RATIO && ratio > 0\<close>.
\<close>

theorem liquidate_strict_isLiquidatable_never:
  "(liquidate s sender trader tok = Inl NotLiquidatable \<longleftrightarrow>
      psize (positions s trader tok) \<noteq> 0
      \<and> (\<exists>v r. positionMarginRatio (positions s trader tok) = Inr (v, r)
               \<and> maintenanceMarginRatio (markets s tok) \<le> r))
   \<and> (liquidate s sender trader tok = Inr (s', ev) \<longrightarrow>
        (\<exists>v r. positionMarginRatio (positions s trader tok) = Inr (v, r)
               \<and> r < maintenanceMarginRatio (markets s tok))
        \<and> positions s' trader tok = empty_Position)
   \<and> getMarginRatio ab t = Inr 0
   \<and> isLiquidatable ab t = Inr False"
proof (intro conjI impI)
  show "liquidate s sender trader tok = Inl NotLiquidatable \<longleftrightarrow>
      psize (positions s trader tok) \<noteq> 0
      \<and> (\<exists>v r. positionMarginRatio (positions s trader tok) = Inr (v, r)
               \<and> maintenanceMarginRatio (markets s tok) \<le> r)"
    by (rule liquidate_NotLiquidatable_iff)
next
  assume l: "liquidate s sender trader tok = Inr (s', ev)"
  from liquidate_Inr [OF l]
  show "\<exists>v r. positionMarginRatio (positions s trader tok) = Inr (v, r)
               \<and> r < maintenanceMarginRatio (markets s tok)"
    by simp
  from liquidate_Inr [OF l] show "positions s' trader tok = empty_Position" by simp
next
  show "getMarginRatio ab t = Inr 0" by (rule getMarginRatio_zero)
next
  show "isLiquidatable ab t = Inr False" by (rule isLiquidatable_False)
qed

theorem liquidate_strict_isLiquidatable_never_witness:
  "positionMarginRatio (positions ch_at 101 200) = Inr (10000, 50)
   \<and> maintenanceMarginRatio (markets ch_at 200) = 50
   \<and> liquidate ch_at 102 101 200 = Inl NotLiquidatable
   \<and> positionMarginRatio (positions ch_below 101 200) = Inr (10000, 49)
   \<and> maintenanceMarginRatio (markets ch_below 200) = 50
   \<and> liquidate ch_below 102 101 200 =
       Inr (set_position ch_below 101 200 empty_Position,
          \<lparr>pl_trader = 101, pl_baseToken = 200, positionNotional = 10000,
           liquidationFee = 2, liquidator = 102\<rparr>)
   \<and> getMarginRatio ab_low 101 = Inr 0
   \<and> isLiquidatable ab_low 101 = Inr False"
proof -
  note p = ch_at_fields
  note q = ch_below_fields
  have n: "psize pos_at \<noteq> 0" by (simp add: pos_at_def)
  note at_inst = liquidate_strict_isLiquidatable_never [of ch_at 102 101 200
      "set_position ch_below 101 200 empty_Position"
      "\<lparr>pl_trader = 101, pl_baseToken = 200, positionNotional = 10000,
           liquidationFee = 2, liquidator = 102\<rparr>" ab_low 101]
  note below_inst = liquidate_strict_isLiquidatable_never [of ch_below 102 101 200
      "set_position ch_below 101 200 empty_Position"
      "\<lparr>pl_trader = 101, pl_baseToken = 200, positionNotional = 10000,
           liquidationFee = 2, liquidator = 102\<rparr>" ab_low 101]
  from at_inst have at: "liquidate ch_at 102 101 200 = Inl NotLiquidatable"
    by (simp add: p n ratio_at ch0_market)
  from at_inst have never: "getMarginRatio ab_low 101 = Inr 0" "isLiquidatable ab_low 101 = Inr False"
    by simp_all
  from below_inst liquidate_below
  have below: "maintenanceMarginRatio (markets ch_below 200) = 50"
    by (simp add: q ratio_below ch0_market)
  from at never below show ?thesis
    by (simp add: p q ratio_at ratio_below ch0_market liquidate_below)
qed

lemma withdraw_never_MarginViolation: "withdraw s sender trader amount \<noteq> Inl MarginViolation"
  by (auto simp: withdraw_def canWithdraw_def and_then_Inl_iff require_Inl_iff Decimal_sub_def
      usub_def Decimal_gte_def and_then_Inr_iff split: if_splits)

lemma withdraw_all_ab0:
  "withdraw ab0 202 101 50000000000000000000 =
     Inr (ab0\<lparr>ab_collateral := (ab_collateral ab0)(101 := 0)\<rparr>)"
  by (simp add: withdraw_def canWithdraw_def ab0_def Decimal_gte_def Decimal_sub_def usub_def)

text \<open>
  C4, as stated, fails. On market 300 trader 101 holds an open position of notional
  \<open>1e22\<close> with collateral \<open>50e18\<close>, a margin ratio of 50 basis points, below the initial
  margin requirement of 100; the trader's free balance of \<open>100e18\<close> is 100 basis points
  of the position value. The ClearingHouse withdraws the whole balance: \<open>withdraw\<close>
  succeeds and leaves a free balance of 0, that is 0 basis points of the position value.
\<close>

theorem withdraw_below_initial_margin_counterexample:
  "openPosition ch_hl0 101 10 300 True 50000000000000000000 2000000 0 =
     Inr (ch_hl, 10000000000000000000000,
          \<lparr>pc_trader = 101, pc_baseToken = 300,
           exchangedPositionSize = 10000000000000000000000,
           exchangedPositionNotional = 10000000000000000000000, pc_fee = 0, realizedPnl = 0\<rparr>)
   \<and> positionMarginRatio (positions ch_hl 101 300) = Inr (10000000000000000000000, 50)
   \<and> INITIAL_MARGIN_RATIO = 100
   \<and> marginRatioOver ab_hl 101 10000000000000000000000 = Inr 100
   \<and> withdraw ab_hl 202 101 100000000000000000000 = Inr ab_hl_after
   \<and> ab_collateral ab_hl_after 101 = 0
   \<and> marginRatioOver ab_hl_after 101 10000000000000000000000 = Inr 0"
  by (simp add: open_hl ch_hl_position ratio_hl INITIAL_MARGIN_RATIO_def marginRatioOver_hl
      withdraw_hl ab_hl_after_balance marginRatioOver_hl_after)

text \<open>
  C4, amended. \<open>withdraw\<close>, called by the ClearingHouse, fails with "Insufficient
  collateral" whenever the amount exceeds the trader's free collateral balance, and
  succeeds for every other amount, whatever positions the trader holds, reducing the
  balance by the amount; a call by anybody else fails with "Only ClearingHouse". It never
  fails with "Would violate margin requirements": \<open>canWithdraw\<close> never returns false.
\<close>

theorem withdraw_effect:
  "withdraw s sender trader amount =
     (if sender = ab_clearingHouse s
      then (if ab_collateral s trader < amount then Inl InsufficientCollateral
            else Inr (s\<lparr>ab_collateral :=
                         (ab_collateral s)(trader := ab_collateral s trader - amount)\<rparr>))
      else Inl OnlyClearingHouse)
   \<and> withdraw s sender trader amount \<noteq> Inl MarginViolation
   \<and> canWithdraw s trader amount \<noteq> Inr False"
  by (auto simp: withdraw_eq canWithdraw_def and_then_Inr_iff)

theorem withdraw_effect_witness:
  "withdraw ab_hl 202 101 100000000000000000001 = Inl InsufficientCollateral
   \<and> withdraw ab_hl 202 101 100000000000000000000 = Inr ab_hl_after
   \<and> withdraw ab_hl 101 101 100000000000000000000 = Inl OnlyClearingHouse"
  using withdraw_effect [of ab_hl 202 101 100000000000000000001]
    withdraw_effect [of ab_hl 202 101 100000000000000000000]
    withdraw_effect [of ab_hl 101 101 100000000000000000000]
  by (simp add: ab_hl_fields ab_hl_after_def)

section \<open>Further facts on the error cases and on the position invariant\<close>

text \<open>
  The parts of C4 and C8 that the code does satisfy, and the paths that keep the
  invariant of C6: a close (full or partial), a liquidation and an open on an absent
  position never leave a position of size zero with collateral.
\<close>

lemma closePosition_NoPosition:
  "psize (positions s sender tok) = 0 \<Longrightarrow> closePosition s sender now tok r = Inl NoPosition"
  by (simp add: closePosition_def)

lemma closePosition_InvalidRatio:
  "psize (positions s sender tok) \<noteq> 0 \<Longrightarrow> BASIS_POINTS < r \<Longrightarrow>
     closePosition s sender now tok r = Inl InvalidRatio"
  by (simp add: closePosition_def)

lemma withdraw_InsufficientCollateral:
  "sender = ab_clearingHouse s \<Longrightarrow> ab_collateral s trader < amount \<Longrightarrow>
     withdraw s sender trader amount = Inl InsufficientCollateral"
  by (simp add: withdraw_def Decimal_gte_def)

lemma withdraw_succeeds:
  "sender = ab_clearingHouse s \<Longrightarrow> amount \<le> ab_collateral s trader \<Longrightarrow>
     withdraw s sender trader amount
       = Inr (s\<lparr>ab_collateral := (ab_collateral s)(trader := ab_collateral s trader - amount)\<rparr>)"
  by (simp add: withdraw_def canWithdraw_def Decimal_gte_def Decimal_sub_def usub_def)

lemma partial_share_less:
  fixes n r :: nat
  assumes "0 < n" and "r < 10000"
  shows "n * r div 10000 < n"
proof -
  have "n * r < n * 10000" using assms by simp
  then show ?thesis by (simp add: less_mult_imp_div_less mult.commute)
qed

lemma closePosition_keeps_size_zero_invariant:
  assumes "closePosition s sender now tok r = Inr (s', pnl, ev)"
  shows "psize (positions s' sender tok) = 0 \<longrightarrow> collateral (positions s' sender tok) = 0"
proof (cases "r = 10000")
  case True
  with closePosition_Inr [OF assms] show ?thesis by (simp add: empty_Position_def)
next
  case False
  with closePosition_Inr [OF assms] have r: "r < 10000" by simp
  show ?thesis
  proof (cases "0 < psize (positions s sender tok)")
    case True
    with assms False r obtain closeSize where
      "closeSize = nat (psize (positions s sender tok)) * r div 10000"
      "psize (positions s' sender tok) = psize (positions s sender tok) - to_int256 closeSize"
      by (auto simp: closePosition_def Let_def and_then_Inr_iff require_Inr_iff umul_Inr_iff
          udiv_Inr_iff usub_Inr_iff ssub_def chk_Inr_iff abs_size_Inr_iff BASIS_POINTS_def)
    moreover have "nat (psize (positions s sender tok)) * r div 10000
                    < nat (psize (positions s sender tok))"
      using True r by (intro partial_share_less) simp_all
    ultimately show ?thesis
      by (auto simp: to_int256_def split: if_splits)
  next
    case neg: False
    with assms False r obtain closeSize where
      "closeSize = nat (- psize (positions s sender tok)) * r div 10000"
      "psize (positions s' sender tok) = psize (positions s sender tok) + to_int256 closeSize"
      "psize (positions s sender tok) \<noteq> 0"
      by (auto simp: closePosition_def Let_def and_then_Inr_iff require_Inr_iff umul_Inr_iff
          udiv_Inr_iff usub_Inr_iff sadd_def chk_Inr_iff abs_size_Inr_iff BASIS_POINTS_def)
    moreover have "nat (- psize (positions s sender tok)) * r div 10000
                    < nat (- psize (positions s sender tok))"
      using neg calculation(3) r by (intro partial_share_less) simp_all
    ultimately show ?thesis
      by (auto simp: to_int256_def split: if_splits)
  qed
qed

lemma liquidate_deletes:
  assumes "liquidate s sender trader tok = Inr (s', ev)"
  shows "positions s' trader tok = empty_Position"
  using liquidate_Inr [OF assms] by simp

lemma openPosition_fresh_size_nonzero:
  assumes "openPosition s sender now tok isLong c l m = Inr (s', sz, ev)"
      and "psize (positions s sender tok) = 0"
  shows "psize (positions s' sender tok) \<noteq> 0"
proof -
  from openPosition_fresh [OF assms] have
    sz: "sz \<noteq> 0" "sz * UNIT < 2 ^ 256" and
    p: "psize (positions s' sender tok) = (if isLong then to_int256 sz else - to_int256 sz)"
    by simp_all
  have "sz * 1 \<le> sz * UNIT" by (intro mult_le_mono2) (simp add: UNIT_def)
  with sz(2) have "sz < 2 ^ 255" by (simp add: UNIT_def)
  then have "to_int256 sz = int sz" by (simp add: to_int256_def)
  with p sz(1) show ?thesis by simp
qed

end
